theory Spec2Isabelle
  imports Complex_Main "HOL-Library.Sublist"
begin

section \<open>Effects of the editor extension\<close>

text \<open>
  The extension talks to its host (the editor) and to the file system. The embedding
  keeps what the code can change in a \<open>world\<close> (files, the host's own state, and the
  chronological trace of every observable call), and what the code only reads in the
  records \<open>reconciler_host\<close> and \<open>platform\<close>. The host state \<open>'h\<close> is left abstract:
  the code reaches it only through \<open>extensions.all\<close> and \<open>commands.executeCommand\<close>.
  Logger calls are recorded with their message and the error handed to them; the
  logger's source tag and its notification flag are left out.
\<close>

datatype command =
    UninstallExtension string   \<comment> \<open>\<open>workbench.extensions.uninstallExtension\<close>, id\<close>
  | InstallExtension string     \<comment> \<open>\<open>workbench.extensions.installExtension\<close>, id\<close>
  | ReloadWindow                \<comment> \<open>\<open>workbench.action.reloadWindow\<close>\<close>

datatype error =
    FileNotFound string   \<comment> \<open>\<open>FileSystemError.FileNotFound(message)\<close>\<close>
  | ReadFailure           \<comment> \<open>\<open>readFile\<close> rejected\<close>
  | SyntaxError           \<comment> \<open>\<open>JSON5.parse\<close> threw\<close>
  | TypeError             \<comment> \<open>property read on \<open>null\<close>/\<open>undefined\<close>, call of a non-function\<close>
  | WriteFailure          \<comment> \<open>\<open>workspace.fs.writeFile\<close> rejected\<close>
  | CommandFailure command \<comment> \<open>\<open>commands.executeCommand\<close> rejected\<close>

datatype level = Info | Warn | Err

datatype event =
    Stat string                       \<comment> \<open>\<open>workspace.fs.stat\<close> on a path\<close>
  | Log level string "error option"   \<comment> \<open>a logger call: message and attached error\<close>
  | ShowInformationMessage string
  | ShowWarningMessage string
  | Report string rat                 \<comment> \<open>\<open>progress.report({message, increment})\<close>\<close>
  | ExecuteCommand command
  | WriteFile string string           \<comment> \<open>a completed \<open>workspace.fs.writeFile\<close>\<close>

datatype node =
    Regular string   \<comment> \<open>a readable file and its text\<close>
  | Other            \<comment> \<open>a directory or unreadable entry: \<open>stat\<close> succeeds, \<open>readFile\<close> rejects\<close>

record extension =
  ext_id :: string
  isBuiltin :: bool

record 'h world =
  files :: "string \<Rightarrow> node option"
  host :: 'h
  trace :: "event list"

definition emit :: "event \<Rightarrow> 'h world \<Rightarrow> 'h world" where
  "emit e w = w\<lparr>trace := trace w @ [e]\<rparr>"

section \<open>Extension reconciler\<close>

text \<open>
  What \<open>installExtensions\<close> reads from the host: the installed extensions, the two
  settings of the \<open>synceverything\<close> configuration section (\<open>None\<close> when unset), the
  behaviour of \<open>executeCommand\<close> (\<open>False\<close> when the command rejects, with the host
  state it leaves), and the user's answers to the two prompts (\<open>None\<close> when the prompt
  is dismissed).
\<close>

record 'h reconciler_host =
  extensions_all :: "'h \<Rightarrow> extension list"
  excludeExtensions :: "string list option"
  confirmBeforeSync :: "bool option"
  executeCommand :: "command \<Rightarrow> 'h \<Rightarrow> bool \<times> 'h"
  warningAnswer :: "string option"
  reloadAnswer :: "string option"

fun show_nat :: "nat \<Rightarrow> string" where
  "show_nat n =
     (if n < 10 then [char_of (48 + n)]
      else show_nat (n div 10) @ [char_of (48 + n mod 10)])"

declare show_nat.simps [simp del]

fun join :: "string \<Rightarrow> string list \<Rightarrow> string" where
  "join sep [] = []"
| "join sep [x] = x"
| "join sep (x # y # ys) = x @ sep @ join sep (y # ys)"

definition getExtensions :: "'h reconciler_host \<Rightarrow> 'h \<Rightarrow> string list" where
  "getExtensions api h =
     (let excludeList = (case excludeExtensions api of Some l \<Rightarrow> l | None \<Rightarrow> [])
      in filter (\<lambda>i. i \<notin> set excludeList)
           (map ext_id (filter (\<lambda>ext. \<not> isBuiltin ext) (extensions_all api h))))"

definition toInstall :: "string list \<Rightarrow> string list \<Rightarrow> string list" where
  "toInstall localList remoteList = filter (\<lambda>i. i \<notin> set localList) remoteList"

definition toDelete :: "string list \<Rightarrow> string list \<Rightarrow> string list" where
  "toDelete localList remoteList = filter (\<lambda>i. i \<notin> set remoteList) localList"

definition bullet :: string where
  "bullet = [CHR 0xE2, CHR 0x80, CHR 0xA2]"  \<comment> \<open>U+2022 in UTF-8\<close>

definition confirm_message :: "string list \<Rightarrow> string list \<Rightarrow> string" where
  "confirm_message ins del =
     ''Sync will:'' @ [CHR 0x0A] @ bullet @ '' Install '' @ show_nat (length ins) @ '' extensions''
       @ [CHR 0x0A] @ bullet @ '' Remove '' @ show_nat (length del) @ '' extensions''
       @ [CHR 0x0A, CHR 0x0A] @ ''Continue?''"

definition details :: "string list \<Rightarrow> string list \<Rightarrow> string" where
  "details ins del =
     join [CHR 0x0A, CHR 0x0A]
       (filter (\<lambda>s. s \<noteq> [])
          [if length ins > 0 then ''To Install:'' @ [CHR 0x0A] @ join [CHR 0x0A] ins else [],
           if length del > 0 then ''To Remove:'' @ [CHR 0x0A] @ join [CHR 0x0A] del else []])"

text \<open>
  The two \<open>for\<close> loops of the progress callback. The loop state is the counter
  \<open>completed\<close>, the flag \<open>needsReload\<close> and the world. \<open>progress.report\<close> and the
  command both sit inside the \<open>try\<close>; a rejected command is caught, logged, and the
  loop goes on with the next identifier.
\<close>

fun uninstall_loop ::
  "'h reconciler_host \<Rightarrow> nat \<Rightarrow> string list \<Rightarrow> nat \<times> bool \<times> 'h world \<Rightarrow> nat \<times> bool \<times> 'h world"
where
  "uninstall_loop api tot [] st = st"
| "uninstall_loop api tot (i # ids) (completed, needsReload, w) =
     (let completed' = completed + 1;
          w1 = emit (Report (''Uninstalling '' @ i @ ''...'')
                       (of_nat completed' / of_nat tot * 100)) w;
          w2 = emit (ExecuteCommand (UninstallExtension i)) w1;
          (ok, h') = executeCommand api (UninstallExtension i) (host w2);
          w3 = w2\<lparr>host := h'\<rparr>
      in if ok
         then uninstall_loop api tot ids
                (completed', True, emit (Log Info (''Uninstalled extension: '' @ i) None) w3)
         else uninstall_loop api tot ids
                (completed', needsReload,
                 emit (Log Err (''Failed to uninstall '' @ i)
                         (Some (CommandFailure (UninstallExtension i)))) w3))"

fun install_loop ::
  "'h reconciler_host \<Rightarrow> nat \<Rightarrow> string list \<Rightarrow> nat \<times> bool \<times> 'h world \<Rightarrow> nat \<times> bool \<times> 'h world"
where
  "install_loop api tot [] st = st"
| "install_loop api tot (i # ids) (completed, needsReload, w) =
     (let completed' = completed + 1;
          w1 = emit (Report (''Installing '' @ i @ ''...'')
                       (of_nat completed' / of_nat tot * 100)) w;
          w2 = emit (ExecuteCommand (InstallExtension i)) w1;
          (ok, h') = executeCommand api (InstallExtension i) (host w2);
          w3 = w2\<lparr>host := h'\<rparr>
      in if ok
         then install_loop api tot ids
                (completed', True, emit (Log Info (''Installed extension: '' @ i) None) w3)
         else install_loop api tot ids
                (completed', needsReload,
                 emit (Log Err (''Failed to install '' @ i)
                         (Some (CommandFailure (InstallExtension i)))) w3))"

text \<open>The callback handed to \<open>window.withProgress\<close>: deletions first, then installations.\<close>

definition syncBatch ::
  "'h reconciler_host \<Rightarrow> string list \<Rightarrow> string list \<Rightarrow> 'h world \<Rightarrow> nat \<times> bool \<times> 'h world"
where
  "syncBatch api ins del w =
     (let tot = length ins + length del
      in install_loop api tot ins (uninstall_loop api tot del (0, False, w)))"

definition afterBatch :: "'h reconciler_host \<Rightarrow> bool \<Rightarrow> 'h world \<Rightarrow> (error + unit) \<times> 'h world" where
  "afterBatch api needsReload w =
     (if needsReload
      then (let w1 = emit (ShowInformationMessage
                             ''Extension sync complete. Reload window to apply all changes?'') w
            in if reloadAnswer api = Some ''Reload''
               then (let w2 = emit (ExecuteCommand ReloadWindow) w1;
                         (ok, h') = executeCommand api ReloadWindow (host w2)
                     in (if ok then Inr () else Inl (CommandFailure ReloadWindow),
                         w2\<lparr>host := h'\<rparr>))
               else (Inr (), w1))
      else (Inr (), w))"

definition installExtensions ::
  "'h reconciler_host \<Rightarrow> string list \<Rightarrow> 'h world \<Rightarrow> (error + unit) \<times> 'h world"
where
  "installExtensions api remoteList w =
     (let localList = getExtensions api (host w);
          ins = toInstall localList remoteList;
          del = toDelete localList remoteList
      in if length ins = 0 \<and> length del = 0
         then (Inr (), emit (ShowInformationMessage ''Extensions are already in sync'') w)
         else if (case confirmBeforeSync api of Some b \<Rightarrow> b | None \<Rightarrow> True)
         then (let w1 = emit (ShowWarningMessage (confirm_message ins del)) w
               in if warningAnswer api = Some ''Show Details''
                  then (Inr (), emit (ShowInformationMessage (details ins del)) w1)
                  else if warningAnswer api \<noteq> Some ''Yes''
                  then (Inr (), w1)
                  else (case syncBatch api ins del w1 of
                          (completed, needsReload, w2) \<Rightarrow> afterBatch api needsReload w2))
         else (case syncBatch api ins del w of
                 (completed, needsReload, w2) \<Rightarrow> afterBatch api needsReload w2))"

section \<open>Observations on traces\<close>

text \<open>
  The functions of this section do not translate source code. They read a trace (the
  commands executed, the log entries, the reported increments), run the host's
  \<open>executeCommand\<close> over a command sequence to name the result of each action
  (\<open>outcomes\<close>) and the host state it leaves (\<open>final_host\<close>), and name the log entry and
  the world expected after one action of each loop.
\<close>

fun executed :: "event list \<Rightarrow> command list" where
  "executed [] = []"
| "executed (ExecuteCommand c # es) = c # executed es"
| "executed (e # es) = executed es"

fun logs :: "event list \<Rightarrow> event list" where
  "logs [] = []"
| "logs (Log l m e # es) = Log l m e # logs es"
| "logs (e # es) = logs es"

fun increments :: "event list \<Rightarrow> rat list" where
  "increments [] = []"
| "increments (Report m r # es) = r # increments es"
| "increments (e # es) = increments es"

fun outcomes :: "(command \<Rightarrow> 'h \<Rightarrow> bool \<times> 'h) \<Rightarrow> command list \<Rightarrow> 'h \<Rightarrow> bool list" where
  "outcomes ex [] h = []"
| "outcomes ex (c # cs) h = fst (ex c h) # outcomes ex cs (snd (ex c h))"

fun final_host :: "(command \<Rightarrow> 'h \<Rightarrow> bool \<times> 'h) \<Rightarrow> command list \<Rightarrow> 'h \<Rightarrow> 'h" where
  "final_host ex [] h = h"
| "final_host ex (c # cs) h = final_host ex cs (snd (ex c h))"

definition uninstall_log :: "string \<Rightarrow> bool \<Rightarrow> event" where
  "uninstall_log i ok =
     (if ok then Log Info (''Uninstalled extension: '' @ i) None
      else Log Err (''Failed to uninstall '' @ i) (Some (CommandFailure (UninstallExtension i))))"

definition install_log :: "string \<Rightarrow> bool \<Rightarrow> event" where
  "install_log i ok =
     (if ok then Log Info (''Installed extension: '' @ i) None
      else Log Err (''Failed to install '' @ i) (Some (CommandFailure (InstallExtension i))))"


definition uninstall_step :: "'h reconciler_host \<Rightarrow> nat \<Rightarrow> string \<Rightarrow> nat \<Rightarrow> 'h world \<Rightarrow> 'h world" where
  "uninstall_step api tot i c w =
     w\<lparr>host := snd (executeCommand api (UninstallExtension i) (host w)),
       trace := trace w @
         [Report (''Uninstalling '' @ i @ ''...'') (of_nat (Suc c) / of_nat tot * 100),
          ExecuteCommand (UninstallExtension i),
          uninstall_log i (fst (executeCommand api (UninstallExtension i) (host w)))]\<rparr>"

definition install_step :: "'h reconciler_host \<Rightarrow> nat \<Rightarrow> string \<Rightarrow> nat \<Rightarrow> 'h world \<Rightarrow> 'h world" where
  "install_step api tot i c w =
     w\<lparr>host := snd (executeCommand api (InstallExtension i) (host w)),
       trace := trace w @
         [Report (''Installing '' @ i @ ''...'') (of_nat (Suc c) / of_nat tot * 100),
          ExecuteCommand (InstallExtension i),
          install_log i (fst (executeCommand api (InstallExtension i) (host w)))]\<rparr>"

text \<open>
  Counting log entries by level; the commands of a batch in the order uninstalls, then
  installs; and the three conditions on the configuration and the user's answer that
  the statements about \<open>installExtensions\<close> distinguish.
\<close>

definition failures :: "event list \<Rightarrow> nat" where
  "failures tr = length (filter (\<lambda>e. case e of Log Err m x \<Rightarrow> True | _ \<Rightarrow> False) tr)"

definition successes :: "event list \<Rightarrow> nat" where
  "successes tr = length (filter (\<lambda>e. case e of Log Info m x \<Rightarrow> True | _ \<Rightarrow> False) tr)"

definition batch_commands :: "string list \<Rightarrow> string list \<Rightarrow> command list" where
  "batch_commands ins del = map UninstallExtension del @ map InstallExtension ins"

definition proceeds :: "'h reconciler_host \<Rightarrow> bool" where
  "proceeds api =
     (if (case confirmBeforeSync api of Some b \<Rightarrow> b | None \<Rightarrow> True)
      then warningAnswer api = Some ''Yes'' else True)"

definition reload_commands :: "'h reconciler_host \<Rightarrow> command list \<Rightarrow> 'h \<Rightarrow> command list" where
  "reload_commands api cmds h =
     (if True \<in> set (outcomes (executeCommand api) cmds h) \<and> reloadAnswer api = Some ''Reload''
      then [ReloadWindow] else [])"

definition confirmation_enabled :: "'h reconciler_host \<Rightarrow> bool" where
  "confirmation_enabled api = (case confirmBeforeSync api of Some b \<Rightarrow> b | None \<Rightarrow> True)"

section \<open>JavaScript values\<close>

text \<open>
  The values \<open>JSON5.parse\<close> can return, and \<open>undefined\<close>. An object is the list of its
  members in source order; a later duplicate key wins.
\<close>

datatype jsnum = NaN | Finite rat | Infinity bool

datatype jsval =
    JUndefined
  | JNull
  | JBool bool
  | JNum jsnum
  | JStr string
  | JArr "jsval list"
  | JObj "(string \<times> jsval) list"

fun truthy :: "jsval \<Rightarrow> bool" where
  "truthy JUndefined = False"
| "truthy JNull = False"
| "truthy (JBool b) = b"
| "truthy (JNum n) = (n \<noteq> NaN \<and> n \<noteq> Finite 0)"
| "truthy (JStr s) = (s \<noteq> [])"
| "truthy (JArr xs) = True"
| "truthy (JObj kvs) = True"

fun nullish :: "jsval \<Rightarrow> bool" where
  "nullish JUndefined = True"
| "nullish JNull = True"
| "nullish v = False"

text \<open>
  \<open>a === b\<close>. Two arrays or objects are equal only when they are the same object; the
  operands compared by this program sit at different places of one freshly parsed
  document, so they never are.
\<close>

fun strict_eq :: "jsval \<Rightarrow> jsval \<Rightarrow> bool" where
  "strict_eq JUndefined JUndefined = True"
| "strict_eq JNull JNull = True"
| "strict_eq (JBool a) (JBool b) = (a = b)"
| "strict_eq (JNum a) (JNum b) = (a \<noteq> NaN \<and> a = b)"
| "strict_eq (JStr a) (JStr b) = (a = b)"
| "strict_eq a b = False"

text \<open>
  \<open>v[k]\<close> on a value that is neither \<open>null\<close> nor \<open>undefined\<close>, for the keys this program
  reads: the fixed names \<open>profileAssociations\<close>, \<open>workspaces\<close>, \<open>userDataProfiles\<close>,
  \<open>location\<close>, \<open>name\<close>, and a workspace URI (which starts with its scheme and a colon).
  None of them is an array index or a property of a prototype, so only an object's own
  members answer.
\<close>

fun own_prop :: "jsval \<Rightarrow> string \<Rightarrow> jsval" where
  "own_prop (JObj kvs) k = (case map_of (rev kvs) k of Some v \<Rightarrow> v | None \<Rightarrow> JUndefined)"
| "own_prop v k = JUndefined"

section \<open>Platform\<close>

text \<open>
  What the code reads from its runtime: \<open>os.platform()\<close>, four variables of
  \<open>process.env\<close> (\<open>None\<close> when unset), \<open>os.homedir()\<close>, and the library functions it
  calls: \<open>Uri.file(p).fsPath\<close>, \<open>JSON5.parse\<close> (\<open>None\<close> when it throws),
  \<open>JSON.stringify(v, null, 2)\<close> on a value other than \<open>undefined\<close>, the conversion of a
  value other than a string inside a template literal, whether \<open>workspace.fs.writeFile\<close>
  succeeds on a path, and \<open>workspace.workspaceFolders?.[0]?.uri.toString()\<close>.
\<close>

record platform =
  os_platform :: string
  APPDATA :: "string option"
  USERPROFILE :: "string option"
  HOME :: "string option"
  XDG_CONFIG_HOME :: "string option"
  homedir :: string
  fsPath :: "string \<Rightarrow> string"
  json5_parse :: "string \<Rightarrow> jsval option"
  stringify :: "jsval \<Rightarrow> string"
  ToString :: "jsval \<Rightarrow> string"
  writable :: "string \<Rightarrow> bool"
  workspaceUri :: "string option"

definition env_text :: "string option \<Rightarrow> string" where
  "env_text v = (case v of Some s \<Rightarrow> s | None \<Rightarrow> ''undefined'')"

definition template :: "platform \<Rightarrow> jsval \<Rightarrow> string" where
  "template plat v = (case v of JStr s \<Rightarrow> s | _ \<Rightarrow> ToString plat v)"

definition default_profile :: string where
  "default_profile = ''__default__profile__''"

section \<open>Config locator\<close>

definition baseFolder :: "platform \<Rightarrow> string" where
  "baseFolder plat =
     (if os_platform plat = ''win32'' then env_text (APPDATA plat)
      else if os_platform plat = ''darwin''
      then env_text (HOME plat) @ ''/Library/Application Support''
      else env_text (HOME plat) @ ''/.config'')"

definition separator :: "platform \<Rightarrow> string" where
  "separator plat = (if os_platform plat = ''win32'' then [CHR 0x5C] else ''/'')"

definition profile_path :: "platform \<Rightarrow> string \<Rightarrow> string \<Rightarrow> jsval \<Rightarrow> string" where
  "profile_path plat appName file profileId =
     baseFolder plat @ separator plat @ appName @ separator plat @ ''User'' @ separator plat
       @ ''profiles'' @ separator plat @ template plat profileId @ separator plat @ file"

definition default_paths :: "platform \<Rightarrow> string \<Rightarrow> string \<Rightarrow> string list" where
  "default_paths plat appName file =
     (if os_platform plat = ''win32''
      then [env_text (APPDATA plat) @ [CHR 0x5C] @ appName @ [CHR 0x5C] @ ''User'' @ [CHR 0x5C] @ file,
            env_text (USERPROFILE plat) @ [CHR 0x5C] @ ''AppData'' @ [CHR 0x5C] @ ''Roaming''
              @ [CHR 0x5C] @ appName @ [CHR 0x5C] @ ''User'' @ [CHR 0x5C] @ file]
      else if os_platform plat = ''darwin''
      then [env_text (HOME plat) @ ''/Library/Application Support/'' @ appName @ ''/User/'' @ file,
            homedir plat @ ''/Library/Application Support/'' @ appName @ ''/User/'' @ file]
      else [env_text (HOME plat) @ ''/.config/'' @ appName @ ''/User/'' @ file,
            (case XDG_CONFIG_HOME plat of
               Some x \<Rightarrow> if x \<noteq> [] then x else homedir plat @ ''/.config''
             | None \<Rightarrow> homedir plat @ ''/.config'')
              @ ''/'' @ appName @ ''/User/'' @ file,
            homedir plat @ ''/.config/'' @ appName @ ''/User/'' @ file])"

definition getConfigPaths :: "platform \<Rightarrow> string \<Rightarrow> string \<Rightarrow> jsval \<Rightarrow> string list" where
  "getConfigPaths plat appName file profileId =
     (if truthy profileId \<and> \<not> strict_eq profileId (JStr default_profile)
      then [profile_path plat appName file profileId] else [])
     @ default_paths plat appName file"

definition pathExists :: "platform \<Rightarrow> string \<Rightarrow> 'h world \<Rightarrow> bool \<times> 'h world" where
  "pathExists plat path w =
     (case files w (fsPath plat path) of
        Some n \<Rightarrow> (True, emit (Log Info (''Found file at: '' @ path) None) (emit (Stat path) w))
      | None \<Rightarrow> (False, emit (Stat path) w))"

fun probe :: "platform \<Rightarrow> string list \<Rightarrow> 'h world \<Rightarrow> string option \<times> 'h world" where
  "probe plat [] w = (None, w)"
| "probe plat (path # paths) w =
     (case pathExists plat path w of
        (True, w') \<Rightarrow> (Some (fsPath plat path), w')
      | (False, w') \<Rightarrow> probe plat paths w')"

definition findConfigFile ::
  "platform \<Rightarrow> string \<Rightarrow> string \<Rightarrow> jsval \<Rightarrow> 'h world \<Rightarrow> (error + string) \<times> 'h world"
where
  "findConfigFile plat appName file profileId w =
     (case probe plat (getConfigPaths plat appName file profileId) w of
        (Some found, w') \<Rightarrow> (Inr found, w')
      | (None, w') \<Rightarrow>
          (Inl (FileNotFound (file @ '' does not exist in any of the configuration directories'')),
           emit (Log Err (''Could not find '' @ file @ '' in any default location'') None) w'))"

section \<open>Profile detector\<close>

record profile_info =
  info_id :: jsval
  info_name :: jsval

definition default_info :: profile_info where
  "default_info = \<lparr>info_id = JStr default_profile, info_name = JStr ''Default''\<rparr>"

definition getStoragePath :: "platform \<Rightarrow> string \<Rightarrow> string" where
  "getStoragePath plat appName =
     baseFolder plat @ separator plat @ appName @ separator plat @ ''User'' @ separator plat
       @ ''globalStorage'' @ separator plat @ ''storage.json''"

text \<open>\<open>xs.find((p) => p.location === profileId)\<close>; reading \<open>location\<close> of \<open>null\<close> throws.\<close>

fun find_profile :: "jsval list \<Rightarrow> jsval \<Rightarrow> error + jsval" where
  "find_profile [] profileId = Inr JUndefined"
| "find_profile (p # ps) profileId =
     (if nullish p then Inl TypeError
      else if strict_eq (own_prop p ''location'') profileId then Inr p
      else find_profile ps profileId)"

text \<open>\<open>storage.userDataProfiles?.find(...)\<close>, for a \<open>storage\<close> that is not nullish.\<close>

definition lookup_profile :: "jsval \<Rightarrow> jsval \<Rightarrow> error + jsval" where
  "lookup_profile storage profileId =
     (let udp = own_prop storage ''userDataProfiles''
      in if nullish udp then Inr JUndefined
         else (case udp of JArr xs \<Rightarrow> find_profile xs profileId | _ \<Rightarrow> Inl TypeError))"

text \<open>The statements after \<open>JSON5.parse\<close>, inside the \<open>try\<close>.\<close>

definition associated_profile :: "platform \<Rightarrow> jsval \<Rightarrow> error + profile_info" where
  "associated_profile plat storage =
     (if nullish storage then Inl TypeError
      else
        (let pa = own_prop storage ''profileAssociations'';
             ws = (if nullish pa then JUndefined else own_prop pa ''workspaces'')
         in if truthy ws
            then (case workspaceUri plat of
                    Some u \<Rightarrow>
                      if u \<noteq> [] \<and> truthy (own_prop ws u)
                      then (let profileId = own_prop ws u
                            in case lookup_profile storage profileId of
                                 Inl e \<Rightarrow> Inl e
                               | Inr profile \<Rightarrow>
                                   (let n = (if nullish profile then JUndefined
                                             else own_prop profile ''name'')
                                    in Inr \<lparr>info_id = profileId,
                                            info_name = (if truthy n then n else profileId)\<rparr>))
                      else Inr default_info
                  | None \<Rightarrow> Inr default_info)
            else Inr default_info))"

text \<open>The body of the \<open>try\<close> block of \<open>getActiveProfileInfo\<close>.\<close>

definition detect_body ::
  "platform \<Rightarrow> string \<Rightarrow> 'h world \<Rightarrow> (error + profile_info) \<times> 'h world"
where
  "detect_body plat appName w =
     (let storagePath = getStoragePath plat appName
      in case pathExists plat storagePath w of
           (False, w1) \<Rightarrow> (Inr default_info, w1)
         | (True, w1) \<Rightarrow>
             (case files w1 storagePath of
                Some (Regular content) \<Rightarrow>
                  (case json5_parse plat content of
                     None \<Rightarrow> (Inl SyntaxError, w1)
                   | Some storage \<Rightarrow> (associated_profile plat storage, w1))
              | _ \<Rightarrow> (Inl ReadFailure, w1)))"

definition getActiveProfileInfo :: "platform \<Rightarrow> string \<Rightarrow> 'h world \<Rightarrow> profile_info \<times> 'h world" where
  "getActiveProfileInfo plat appName w =
     (case detect_body plat appName w of
        (Inr info, w1) \<Rightarrow> (info, w1)
      | (Inl e, w1) \<Rightarrow>
          (default_info,
           emit (Log Warn ''Could not detect active profile, using default: '' (Some e)) w1))"

section \<open>Local profile reader and writer\<close>

datatype config_kind = Keybindings | Settings

fun kind_name :: "config_kind \<Rightarrow> string" where
  "kind_name Keybindings = ''keybindings''"
| "kind_name Settings = ''settings''"

text \<open>\<open>`manual${t.charAt(0).toUpperCase() + t.slice(1)}Path`\<close> for the two values of \<open>t\<close>.\<close>

fun manual_key :: "config_kind \<Rightarrow> string" where
  "manual_key Keybindings = ''manualKeybindingsPath''"
| "manual_key Settings = ''manualSettingsPath''"

text \<open>
  The fields of a \<open>SyncEverything\<close> instance that the modelled methods use;
  \<open>globalState\<close> is \<open>context.globalState.get\<close> on a key (\<open>None\<close> for \<open>undefined\<close>).
\<close>

record sync_everything =
  appName :: string
  activeProfileId :: jsval
  activeProfileName :: jsval
  globalState :: "string \<Rightarrow> string option"

record profile =
  settings :: jsval
  extensions :: "string list"
  keybindings :: jsval
  sourceAppName :: string
  sourceProfileId :: jsval
  sourceProfileName :: jsval

text \<open>The second \<open>try\<close> of \<open>readConfigFile\<close>: read the file at \<open>path\<close> and parse it.\<close>

definition read_and_parse ::
  "platform \<Rightarrow> config_kind \<Rightarrow> string \<Rightarrow> 'h world \<Rightarrow> jsval \<times> 'h world"
where
  "read_and_parse plat t path w =
     (case files w path of
        Some (Regular buffer) \<Rightarrow>
          (case json5_parse plat buffer of
             Some v \<Rightarrow> (v, w)
           | None \<Rightarrow>
               (JUndefined,
                emit (Log Err (''Failed to read '' @ kind_name t @ '' file: '' @ path)
                        (Some SyntaxError)) w))
      | _ \<Rightarrow>
          (JUndefined,
           emit (Log Err (''Failed to read '' @ kind_name t @ '' file: '' @ path)
                   (Some ReadFailure)) w))"

definition readConfigFile ::
  "platform \<Rightarrow> sync_everything \<Rightarrow> config_kind \<Rightarrow> 'h world \<Rightarrow> jsval \<times> 'h world"
where
  "readConfigFile plat this t w =
     (case (case globalState this (manual_key t) of
              Some manualPath \<Rightarrow>
                if manualPath \<noteq> [] then (Inr manualPath, w)
                else findConfigFile plat (appName this) (kind_name t @ ''.json'')
                       (activeProfileId this) w
            | None \<Rightarrow>
                findConfigFile plat (appName this) (kind_name t @ ''.json'')
                  (activeProfileId this) w) of
        (Inl e, w1) \<Rightarrow>
          (JUndefined,
           emit (Log Err (kind_name t @ '' file has not been set, cannot read from empty file path'')
                   (Some e)) w1)
      | (Inr path, w1) \<Rightarrow> read_and_parse plat t path w1)"

definition writeConfigFile ::
  "platform \<Rightarrow> string \<Rightarrow> jsval \<Rightarrow> 'h world \<Rightarrow> (error + unit) \<times> 'h world"
where
  "writeConfigFile plat path data w =
     (case (case data of
              JStr s \<Rightarrow> Inr s
            | JUndefined \<Rightarrow> Inl TypeError
            | v \<Rightarrow> Inr (stringify plat v)) of
        Inl e \<Rightarrow>
          (Inl e, emit (Log Err (''Failed to write settings file: '' @ path) (Some e)) w)
      | Inr content \<Rightarrow>
          if writable plat path
          then (Inr (),
                emit (Log Info (''Configuration file updated: '' @ path) None)
                  (emit (WriteFile path content)
                     (w\<lparr>files := (files w)(fsPath plat path \<mapsto> Regular content)\<rparr>)))
          else (Inl WriteFailure,
                emit (Log Err (''Failed to write settings file: '' @ path) (Some WriteFailure)) w))"

definition getActiveProfile ::
  "platform \<Rightarrow> 'h reconciler_host \<Rightarrow> sync_everything \<Rightarrow> 'h world
     \<Rightarrow> profile \<times> sync_everything \<times> 'h world"
where
  "getActiveProfile plat api this w =
     (case getActiveProfileInfo plat (appName this) w of
        (profileInfo, w1) \<Rightarrow>
          (let this1 = this\<lparr>activeProfileId := info_id profileInfo,
                            activeProfileName := info_name profileInfo\<rparr>;
               w2 = emit (Log Info (''Current active profile: '' @ template plat (info_name profileInfo)
                                      @ '' ('' @ template plat (info_id profileInfo) @ '')'') None) w1
           in case readConfigFile plat this1 Settings w2 of
                (settingsValue, w3) \<Rightarrow>
                  (case readConfigFile plat this1 Keybindings w3 of
                     (keybinds, w4) \<Rightarrow>
                       (\<lparr>settings = settingsValue,
                         extensions = getExtensions api (host w4),
                         keybindings = keybinds,
                         sourceAppName = appName this1,
                         sourceProfileId = activeProfileId this1,
                         sourceProfileName = activeProfileName this1\<rparr>,
                        this1, w4))))"

definition updateLocalProfile ::
  "platform \<Rightarrow> 'h reconciler_host \<Rightarrow> sync_everything \<Rightarrow> profile \<Rightarrow> 'h world
     \<Rightarrow> (error + unit) \<times> 'h world"
where
  "updateLocalProfile plat api this p w =
     (case findConfigFile plat (appName this) ''settings.json'' (activeProfileId this) w of
        (Inl e, w1) \<Rightarrow> (Inl e, w1)
      | (Inr settingsPath, w1) \<Rightarrow>
          (case writeConfigFile plat settingsPath (settings p) w1 of
             (Inl e, w2) \<Rightarrow> (Inl e, w2)
           | (Inr u, w2) \<Rightarrow>
               (case findConfigFile plat (appName this) ''keybindings.json''
                       (activeProfileId this) w2 of
                  (Inl e, w3) \<Rightarrow> (Inl e, w3)
                | (Inr keybindingsPath, w3) \<Rightarrow>
                    (case writeConfigFile plat keybindingsPath (keybindings p) w3 of
                       (Inl e, w4) \<Rightarrow> (Inl e, w4)
                     | (Inr u, w4) \<Rightarrow> installExtensions api (extensions p) w4))))"

section \<open>Observations on files and descriptors\<close>

text \<open>
  Again not translations of source code: the writes and the probes recorded in a trace,
  whether the existence probe of a path succeeds in a world, and the profile id that a
  parsed storage descriptor records for the current workspace (\<open>undefined\<close> when there is
  no workspace, or no entry).
\<close>

fun writes :: "event list \<Rightarrow> (string \<times> string) list" where
  "writes [] = []"
| "writes (WriteFile p c # es) = (p, c) # writes es"
| "writes (e # es) = writes es"

fun probed :: "event list \<Rightarrow> string list" where
  "probed [] = []"
| "probed (Stat p # es) = p # probed es"
| "probed (e # es) = probed es"

definition present :: "platform \<Rightarrow> 'h world \<Rightarrow> string \<Rightarrow> bool" where
  "present plat w path = (files w (fsPath plat path) \<noteq> None)"

definition association :: "platform \<Rightarrow> jsval \<Rightarrow> jsval" where
  "association plat storage =
     (case workspaceUri plat of
        None \<Rightarrow> JUndefined
      | Some u \<Rightarrow>
          if u = [] then JUndefined
          else own_prop (own_prop (own_prop storage ''profileAssociations'') ''workspaces'') u)"

section \<open>A concrete host for evaluation\<close>

text \<open>
  A small host whose state is the list of installed extensions; the command on the
  identifier \<open>bad\<close> rejects. The platform is a Linux one with home directory \<open>/h\<close>;
  its parser knows the three texts the examples store in files.
\<close>

definition demo_execute :: "command \<Rightarrow> extension list \<Rightarrow> bool \<times> extension list" where
  "demo_execute c h =
     (case c of
        UninstallExtension i \<Rightarrow>
          if i = ''bad'' then (False, h) else (True, filter (\<lambda>e. ext_id e \<noteq> i) h)
      | InstallExtension i \<Rightarrow>
          if i = ''bad'' then (False, h) else (True, h @ [\<lparr>ext_id = i, isBuiltin = False\<rparr>])
      | ReloadWindow \<Rightarrow> (True, h))"

definition demo_host :: "extension list reconciler_host" where
  "demo_host =
     \<lparr>extensions_all = (\<lambda>h. h), excludeExtensions = Some [''E''], confirmBeforeSync = Some False,
      executeCommand = demo_execute, warningAnswer = None, reloadAnswer = Some ''Later''\<rparr>"

definition demo_world :: "extension list \<Rightarrow> extension list world" where
  "demo_world exts = \<lparr>files = Map.empty, host = exts, trace = []\<rparr>"

definition ext :: "string \<Rightarrow> extension" where
  "ext i = \<lparr>ext_id = i, isBuiltin = False\<rparr>"

definition asking_host :: "string option \<Rightarrow> extension list reconciler_host" where
  "asking_host answer = demo_host\<lparr>confirmBeforeSync := None, warningAnswer := answer\<rparr>"

definition demo_parse :: "string \<Rightarrow> jsval option" where
  "demo_parse s =
     (if s = ''{}'' then Some (JObj [])
      else if s = ''[]'' then Some (JArr [])
      else if s = ''null'' then Some JNull
      else None)"

definition demo_platform :: platform where
  "demo_platform =
     \<lparr>os_platform = ''linux'', APPDATA = None, USERPROFILE = None, HOME = Some ''/h'',
      XDG_CONFIG_HOME = None, homedir = ''/h'', fsPath = (\<lambda>p. p), json5_parse = demo_parse,
      stringify = (\<lambda>v. ''{}''), ToString = (\<lambda>v. ''[object Object]''), writable = (\<lambda>p. True),
      workspaceUri = Some ''file:///w''\<rparr>"

definition demo_files :: "(string \<times> node) list \<Rightarrow> extension list world" where
  "demo_files fs = \<lparr>files = map_of fs, host = [], trace = []\<rparr>"

definition demo_instance :: "(string \<Rightarrow> string option) \<Rightarrow> sync_everything" where
  "demo_instance g =
     \<lparr>appName = ''Code'', activeProfileId = JNull, activeProfileName = JNull, globalState = g\<rparr>"

definition demo_profile :: profile where
  "demo_profile =
     \<lparr>settings = JStr ''{}'', extensions = [], keybindings = JArr [], sourceAppName = ''Code'',
      sourceProfileId = JNull, sourceProfileName = JNull\<rparr>"

definition demo_manual :: "string \<Rightarrow> string option" where
  "demo_manual = map_of [(''manualSettingsPath'', ''/m/settings.json''),
                         (''manualKeybindingsPath'', ''/m/keybindings.json'')]"

definition demo_no_manual :: "string \<Rightarrow> string option" where
  "demo_no_manual = map_of []"

section \<open>Trace and loop lemmas\<close>

lemma executed_append: "executed (xs @ ys) = executed xs @ executed ys"
  by (induction xs rule: executed.induct) auto

lemma logs_append: "logs (xs @ ys) = logs xs @ logs ys"
  by (induction xs rule: logs.induct) auto

lemma increments_append: "increments (xs @ ys) = increments xs @ increments ys"
  by (induction xs rule: increments.induct) auto

lemma outcomes_append:
  "outcomes ex (cs @ ds) h = outcomes ex cs h @ outcomes ex ds (final_host ex cs h)"
  by (induction cs arbitrary: h) auto

lemma final_host_append:
  "final_host ex (cs @ ds) h = final_host ex ds (final_host ex cs h)"
  by (induction cs arbitrary: h) auto

lemma length_outcomes: "length (outcomes ex cs h) = length cs"
  by (induction cs arbitrary: h) auto

lemma uninstall_loop_Cons:
  "uninstall_loop api tot (i # ids) (c, nr, w) =
     uninstall_loop api tot ids
       (Suc c, nr \<or> fst (executeCommand api (UninstallExtension i) (host w)), uninstall_step api tot i c w)"
  by (cases "executeCommand api (UninstallExtension i) (host w)")
     (simp add: emit_def uninstall_log_def uninstall_step_def)

lemma uninstall_step_simps:
  "host (uninstall_step api tot i c w) = snd (executeCommand api (UninstallExtension i) (host w))"
  "files (uninstall_step api tot i c w) = files w"
  "executed (trace (uninstall_step api tot i c w)) = executed (trace w) @ [UninstallExtension i]"
  "logs (trace (uninstall_step api tot i c w)) =
     logs (trace w) @ [uninstall_log i (fst (executeCommand api (UninstallExtension i) (host w)))]"
  "increments (trace (uninstall_step api tot i c w)) =
     increments (trace w) @ [of_nat (Suc c) / of_nat tot * 100]"
  by (simp_all add: uninstall_step_def executed_append logs_append increments_append uninstall_log_def)

lemma uninstall_loop_count:
  "fst (uninstall_loop api tot ids (c, nr, w)) = c + length ids"
  by (induction ids arbitrary: c nr w)
     (simp_all add: uninstall_loop_Cons del: uninstall_loop.simps(2))

lemma uninstall_loop_flag:
  "fst (snd (uninstall_loop api tot ids (c, nr, w))) =
     (nr \<or> True \<in> set (outcomes (executeCommand api) (map UninstallExtension ids) (host w)))"
  by (induction ids arbitrary: c nr w)
     (auto simp: uninstall_loop_Cons uninstall_step_simps simp del: uninstall_loop.simps(2))

lemma uninstall_loop_host:
  "host (snd (snd (uninstall_loop api tot ids (c, nr, w)))) =
     final_host (executeCommand api) (map UninstallExtension ids) (host w)"
  by (induction ids arbitrary: c nr w)
     (simp_all add: uninstall_loop_Cons uninstall_step_simps del: uninstall_loop.simps(2))

lemma uninstall_loop_files:
  "files (snd (snd (uninstall_loop api tot ids (c, nr, w)))) = files w"
  by (induction ids arbitrary: c nr w)
     (simp_all add: uninstall_loop_Cons uninstall_step_simps del: uninstall_loop.simps(2))

lemma uninstall_loop_executed:
  "executed (trace (snd (snd (uninstall_loop api tot ids (c, nr, w))))) =
     executed (trace w) @ map UninstallExtension ids"
  by (induction ids arbitrary: c nr w)
     (simp_all add: uninstall_loop_Cons uninstall_step_simps del: uninstall_loop.simps(2))

lemma uninstall_loop_logs:
  "logs (trace (snd (snd (uninstall_loop api tot ids (c, nr, w))))) =
     logs (trace w) @
       map2 uninstall_log ids (outcomes (executeCommand api) (map UninstallExtension ids) (host w))"
  by (induction ids arbitrary: c nr w)
     (simp_all add: uninstall_loop_Cons uninstall_step_simps del: uninstall_loop.simps(2))

lemma uninstall_loop_increments:
  "increments (trace (snd (snd (uninstall_loop api tot ids (c, nr, w))))) =
     increments (trace w) @
       map (\<lambda>k. of_nat (Suc (c + k)) / of_nat tot * 100) [0..<length ids]"
  by (induction ids arbitrary: c nr w)
     (simp_all add: uninstall_loop_Cons uninstall_step_simps map_upt_Suc del: uninstall_loop.simps(2) upt_Suc)

lemma install_loop_Cons:
  "install_loop api tot (i # ids) (c, nr, w) =
     install_loop api tot ids
       (Suc c, nr \<or> fst (executeCommand api (InstallExtension i) (host w)), install_step api tot i c w)"
  by (cases "executeCommand api (InstallExtension i) (host w)")
     (simp add: emit_def install_log_def install_step_def)

lemma install_step_simps:
  "host (install_step api tot i c w) = snd (executeCommand api (InstallExtension i) (host w))"
  "files (install_step api tot i c w) = files w"
  "executed (trace (install_step api tot i c w)) = executed (trace w) @ [InstallExtension i]"
  "logs (trace (install_step api tot i c w)) =
     logs (trace w) @ [install_log i (fst (executeCommand api (InstallExtension i) (host w)))]"
  "increments (trace (install_step api tot i c w)) =
     increments (trace w) @ [of_nat (Suc c) / of_nat tot * 100]"
  by (simp_all add: install_step_def executed_append logs_append increments_append install_log_def)

lemma install_loop_count:
  "fst (install_loop api tot ids (c, nr, w)) = c + length ids"
  by (induction ids arbitrary: c nr w)
     (simp_all add: install_loop_Cons del: install_loop.simps(2))

lemma install_loop_flag:
  "fst (snd (install_loop api tot ids (c, nr, w))) =
     (nr \<or> True \<in> set (outcomes (executeCommand api) (map InstallExtension ids) (host w)))"
  by (induction ids arbitrary: c nr w)
     (auto simp: install_loop_Cons install_step_simps simp del: install_loop.simps(2))

lemma install_loop_host:
  "host (snd (snd (install_loop api tot ids (c, nr, w)))) =
     final_host (executeCommand api) (map InstallExtension ids) (host w)"
  by (induction ids arbitrary: c nr w)
     (simp_all add: install_loop_Cons install_step_simps del: install_loop.simps(2))

lemma install_loop_files:
  "files (snd (snd (install_loop api tot ids (c, nr, w)))) = files w"
  by (induction ids arbitrary: c nr w)
     (simp_all add: install_loop_Cons install_step_simps del: install_loop.simps(2))

lemma install_loop_executed:
  "executed (trace (snd (snd (install_loop api tot ids (c, nr, w))))) =
     executed (trace w) @ map InstallExtension ids"
  by (induction ids arbitrary: c nr w)
     (simp_all add: install_loop_Cons install_step_simps del: install_loop.simps(2))

lemma install_loop_logs:
  "logs (trace (snd (snd (install_loop api tot ids (c, nr, w))))) =
     logs (trace w) @
       map2 install_log ids (outcomes (executeCommand api) (map InstallExtension ids) (host w))"
  by (induction ids arbitrary: c nr w)
     (simp_all add: install_loop_Cons install_step_simps del: install_loop.simps(2))

lemma install_loop_increments:
  "increments (trace (snd (snd (install_loop api tot ids (c, nr, w))))) =
     increments (trace w) @
       map (\<lambda>k. of_nat (Suc (c + k)) / of_nat tot * 100) [0..<length ids]"
  by (induction ids arbitrary: c nr w)
     (simp_all add: install_loop_Cons install_step_simps map_upt_Suc del: install_loop.simps(2) upt_Suc)

section \<open>The extension delta\<close>

lemma set_toInstall: "set (toInstall L R) = set R - set L"
  by (auto simp: toInstall_def)

lemma set_toDelete: "set (toDelete L R) = set L - set R"
  by (auto simp: toDelete_def)

lemma delta_empty_iff: "(toInstall L R = [] \<and> toDelete L R = []) = (set L = set R)"
  by (auto simp: toInstall_def toDelete_def filter_empty_conv)

lemma installExtensions_in_sync:
  "set (getExtensions api (host w)) = set R \<Longrightarrow>
     installExtensions api R w =
       (Inr (), emit (ShowInformationMessage ''Extensions are already in sync'') w)"
  using delta_empty_iff [of "getExtensions api (host w)" R]
  by (simp add: installExtensions_def Let_def)

section \<open>The batch as a whole\<close>

lemma syncBatch_unfold:
  assumes "uninstall_loop api (length ins + length del) del (0, False, w) = (c, nr, w1)"
  shows "syncBatch api ins del w = install_loop api (length ins + length del) ins (c, nr, w1)"
  using assms by (simp add: syncBatch_def Let_def)

lemma syncBatch_count: "fst (syncBatch api ins del w) = length del + length ins"
proof -
  obtain c nr w1 where u: "uninstall_loop api (length ins + length del) del (0, False, w) = (c, nr, w1)"
    by (cases "uninstall_loop api (length ins + length del) del (0, False, w)")
  from uninstall_loop_count [of api "length ins + length del" del 0 False w] u
  have "c = length del" by simp
  then show ?thesis
    by (simp add: syncBatch_unfold [OF u] install_loop_count)
qed

lemma syncBatch_files: "files (snd (snd (syncBatch api ins del w))) = files w"
proof -
  obtain c nr w1 where u: "uninstall_loop api (length ins + length del) del (0, False, w) = (c, nr, w1)"
    by (cases "uninstall_loop api (length ins + length del) del (0, False, w)")
  from uninstall_loop_files [of api "length ins + length del" del 0 False w] u
  have "files w1 = files w" by simp
  then show ?thesis
    by (simp add: syncBatch_unfold [OF u] install_loop_files)
qed

lemma syncBatch_host:
  "host (snd (snd (syncBatch api ins del w))) =
     final_host (executeCommand api) (batch_commands ins del) (host w)"
proof -
  obtain c nr w1 where u: "uninstall_loop api (length ins + length del) del (0, False, w) = (c, nr, w1)"
    by (cases "uninstall_loop api (length ins + length del) del (0, False, w)")
  from uninstall_loop_host [of api "length ins + length del" del 0 False w] u
  have "host w1 = final_host (executeCommand api) (map UninstallExtension del) (host w)" by simp
  then show ?thesis
    by (simp add: syncBatch_unfold [OF u] install_loop_host batch_commands_def final_host_append)
qed

lemma syncBatch_executed:
  "executed (trace (snd (snd (syncBatch api ins del w)))) =
     executed (trace w) @ batch_commands ins del"
proof -
  obtain c nr w1 where u: "uninstall_loop api (length ins + length del) del (0, False, w) = (c, nr, w1)"
    by (cases "uninstall_loop api (length ins + length del) del (0, False, w)")
  from uninstall_loop_executed [of api "length ins + length del" del 0 False w] u
  have "executed (trace w1) = executed (trace w) @ map UninstallExtension del" by simp
  then show ?thesis
    by (simp add: syncBatch_unfold [OF u] install_loop_executed batch_commands_def)
qed

lemma syncBatch_flag:
  "fst (snd (syncBatch api ins del w)) =
     (True \<in> set (outcomes (executeCommand api) (batch_commands ins del) (host w)))"
proof -
  obtain c nr w1 where u: "uninstall_loop api (length ins + length del) del (0, False, w) = (c, nr, w1)"
    by (cases "uninstall_loop api (length ins + length del) del (0, False, w)")
  from uninstall_loop_flag [of api "length ins + length del" del 0 False w] u
  have 1: "nr = (True \<in> set (outcomes (executeCommand api) (map UninstallExtension del) (host w)))"
    by simp
  from uninstall_loop_host [of api "length ins + length del" del 0 False w] u
  have 2: "host w1 = final_host (executeCommand api) (map UninstallExtension del) (host w)" by simp
  show ?thesis
    by (simp add: syncBatch_unfold [OF u] install_loop_flag batch_commands_def outcomes_append 1 2)
qed

lemma syncBatch_logs:
  "logs (trace (snd (snd (syncBatch api ins del w)))) =
     logs (trace w) @
     map2 uninstall_log del (outcomes (executeCommand api) (map UninstallExtension del) (host w)) @
     map2 install_log ins
       (outcomes (executeCommand api) (map InstallExtension ins)
          (final_host (executeCommand api) (map UninstallExtension del) (host w)))"
proof -
  obtain c nr w1 where u: "uninstall_loop api (length ins + length del) del (0, False, w) = (c, nr, w1)"
    by (cases "uninstall_loop api (length ins + length del) del (0, False, w)")
  from uninstall_loop_logs [of api "length ins + length del" del 0 False w] u
  have 1: "logs (trace w1) = logs (trace w) @
     map2 uninstall_log del (outcomes (executeCommand api) (map UninstallExtension del) (host w))"
    by simp
  from uninstall_loop_host [of api "length ins + length del" del 0 False w] u
  have 2: "host w1 = final_host (executeCommand api) (map UninstallExtension del) (host w)" by simp
  show ?thesis
    by (simp add: syncBatch_unfold [OF u] install_loop_logs 1 2)
qed

lemma map_upt_split:
  "map f [0..<m + n] = map f [0..<m] @ map (\<lambda>k. f (m + k)) [0..<n]"
  by (induction n) simp_all

lemma syncBatch_increments:
  "increments (trace (snd (snd (syncBatch api ins del w)))) =
     increments (trace w) @
     map (\<lambda>k. of_nat (Suc k) / of_nat (length ins + length del) * 100)
       [0..<length del + length ins]"
proof -
  obtain c nr w1 where u: "uninstall_loop api (length ins + length del) del (0, False, w) = (c, nr, w1)"
    by (cases "uninstall_loop api (length ins + length del) del (0, False, w)")
  from uninstall_loop_increments [of api "length ins + length del" del 0 False w] u
  have 1: "increments (trace w1) = increments (trace w) @
     map (\<lambda>k. of_nat (Suc k) / of_nat (length ins + length del) * 100) [0..<length del]"
    by simp
  from uninstall_loop_count [of api "length ins + length del" del 0 False w] u
  have 2: "c = length del" by simp
  have "increments (trace (snd (snd (syncBatch api ins del w)))) =
      increments (trace w1) @
       map (\<lambda>k. of_nat (Suc (c + k)) / of_nat (length ins + length del) * 100) [0..<length ins]"
    unfolding syncBatch_unfold [OF u] by (rule install_loop_increments)
  then show ?thesis
    unfolding 1 2 map_upt_split [of _ "length del" "length ins"] by simp
qed

section \<open>Order of the actions\<close>

lemma afterBatch_files: "files (snd (afterBatch api nr w)) = files w"
  by (simp add: afterBatch_def emit_def Let_def split: prod.splits)

lemma afterBatch_executed:
  "executed (trace (snd (afterBatch api nr w))) =
     executed (trace w) @ (if nr \<and> reloadAnswer api = Some ''Reload'' then [ReloadWindow] else [])"
  by (simp add: afterBatch_def emit_def Let_def executed_append split: prod.splits)

lemma afterBatch_host:
  "host (snd (afterBatch api nr w)) =
     final_host (executeCommand api)
       (if nr \<and> reloadAnswer api = Some ''Reload'' then [ReloadWindow] else []) (host w)"
  by (simp add: afterBatch_def emit_def Let_def split: prod.splits)

lemma installExtensions_proceeds:
  assumes "proceeds api"
  shows "\<exists>w0. executed (trace w0) = executed (trace w) \<and> host w0 = host w \<and> files w0 = files w \<and>
     installExtensions api R w =
       (if toInstall (getExtensions api (host w)) R = [] \<and> toDelete (getExtensions api (host w)) R = []
        then (Inr (), emit (ShowInformationMessage ''Extensions are already in sync'') w)
        else afterBatch api
               (fst (snd (syncBatch api (toInstall (getExtensions api (host w)) R)
                            (toDelete (getExtensions api (host w)) R) w0)))
               (snd (snd (syncBatch api (toInstall (getExtensions api (host w)) R)
                            (toDelete (getExtensions api (host w)) R) w0))))"
proof (cases "case confirmBeforeSync api of Some b \<Rightarrow> b | None \<Rightarrow> True")
  case True
  with assms have y: "warningAnswer api = Some ''Yes''" by (simp add: proceeds_def)
  let ?w0 = "emit (ShowWarningMessage (confirm_message (toInstall (getExtensions api (host w)) R)
                (toDelete (getExtensions api (host w)) R))) w"
  have "executed (trace ?w0) = executed (trace w) \<and> host ?w0 = host w \<and> files ?w0 = files w"
    by (simp add: emit_def executed_append)
  moreover have "installExtensions api R w =
       (if toInstall (getExtensions api (host w)) R = [] \<and> toDelete (getExtensions api (host w)) R = []
        then (Inr (), emit (ShowInformationMessage ''Extensions are already in sync'') w)
        else afterBatch api
               (fst (snd (syncBatch api (toInstall (getExtensions api (host w)) R)
                            (toDelete (getExtensions api (host w)) R) ?w0)))
               (snd (snd (syncBatch api (toInstall (getExtensions api (host w)) R)
                            (toDelete (getExtensions api (host w)) R) ?w0))))"
    using True y by (simp add: installExtensions_def Let_def split: prod.splits)
  ultimately show ?thesis by blast
next
  case False
  have "installExtensions api R w =
       (if toInstall (getExtensions api (host w)) R = [] \<and> toDelete (getExtensions api (host w)) R = []
        then (Inr (), emit (ShowInformationMessage ''Extensions are already in sync'') w)
        else afterBatch api
               (fst (snd (syncBatch api (toInstall (getExtensions api (host w)) R)
                            (toDelete (getExtensions api (host w)) R) w)))
               (snd (snd (syncBatch api (toInstall (getExtensions api (host w)) R)
                            (toDelete (getExtensions api (host w)) R) w))))"
    using False by (simp add: installExtensions_def Let_def split: prod.splits)
  then show ?thesis by blast
qed

lemma installExtensions_executed:
  assumes "proceeds api"
  shows "executed (trace (snd (installExtensions api R w))) =
     executed (trace w) @
     batch_commands (toInstall (getExtensions api (host w)) R) (toDelete (getExtensions api (host w)) R) @
     reload_commands api
       (batch_commands (toInstall (getExtensions api (host w)) R) (toDelete (getExtensions api (host w)) R))
       (host w)"
proof -
  from installExtensions_proceeds [OF assms, of w R] obtain w0 where
    e: "executed (trace w0) = executed (trace w)" and h: "host w0 = host w" and
    i: "installExtensions api R w =
       (if toInstall (getExtensions api (host w)) R = [] \<and> toDelete (getExtensions api (host w)) R = []
        then (Inr (), emit (ShowInformationMessage ''Extensions are already in sync'') w)
        else afterBatch api
               (fst (snd (syncBatch api (toInstall (getExtensions api (host w)) R)
                            (toDelete (getExtensions api (host w)) R) w0)))
               (snd (snd (syncBatch api (toInstall (getExtensions api (host w)) R)
                            (toDelete (getExtensions api (host w)) R) w0))))"
    by blast
  show ?thesis
  proof (cases "toInstall (getExtensions api (host w)) R = [] \<and> toDelete (getExtensions api (host w)) R = []")
    case True
    then show ?thesis
      by (simp add: i emit_def executed_append batch_commands_def reload_commands_def)
  next
    case False
    then show ?thesis
      by (auto simp add: i afterBatch_executed syncBatch_executed syncBatch_flag syncBatch_host e h
            reload_commands_def)
  qed
qed

lemma installExtensions_host:
  assumes "proceeds api"
  shows "host (snd (installExtensions api R w)) =
     final_host (executeCommand api)
      (batch_commands (toInstall (getExtensions api (host w)) R) (toDelete (getExtensions api (host w)) R) @
       reload_commands api
        (batch_commands (toInstall (getExtensions api (host w)) R) (toDelete (getExtensions api (host w)) R))
        (host w))
      (host w)"
proof -
  from installExtensions_proceeds [OF assms, of w R] obtain w0 where
    e: "executed (trace w0) = executed (trace w)" and h: "host w0 = host w" and
    i: "installExtensions api R w =
       (if toInstall (getExtensions api (host w)) R = [] \<and> toDelete (getExtensions api (host w)) R = []
        then (Inr (), emit (ShowInformationMessage ''Extensions are already in sync'') w)
        else afterBatch api
               (fst (snd (syncBatch api (toInstall (getExtensions api (host w)) R)
                            (toDelete (getExtensions api (host w)) R) w0)))
               (snd (snd (syncBatch api (toInstall (getExtensions api (host w)) R)
                            (toDelete (getExtensions api (host w)) R) w0))))"
    by blast
  show ?thesis
  proof (cases "toInstall (getExtensions api (host w)) R = [] \<and> toDelete (getExtensions api (host w)) R = []")
    case True
    then show ?thesis
      by (simp add: i emit_def batch_commands_def reload_commands_def)
  next
    case False
    then show ?thesis
      by (auto simp add: i afterBatch_host syncBatch_flag syncBatch_host e h
            reload_commands_def final_host_append)
  qed
qed

lemma demo_getExtensions [simp]:
  "getExtensions demo_host h = filter (\<lambda>i. i \<noteq> ''E'') (map ext_id (filter (\<lambda>e. \<not> isBuiltin e) h))"
  by (simp add: getExtensions_def demo_host_def)

text \<open>
  Claim C5. When the reconciliation goes ahead (confirmation disabled, or answered "Yes"),
  the commands it executes are, in this order: one uninstall for each element of
  \<open>toDelete\<close>, in the order of the local list, then one install for each element of
  \<open>toInstall\<close>, in the order of the remote list, then at most the window reload. Each
  command runs on the host state left by the one before it.
\<close>

theorem uninstalls_before_installs:
  assumes "proceeds api"
  shows "let L = getExtensions api (host w);
             cmds = map UninstallExtension (toDelete L R) @ map InstallExtension (toInstall L R);
             reload = reload_commands api cmds (host w)
         in executed (trace (snd (installExtensions api R w))) = executed (trace w) @ cmds @ reload \<and>
            host (snd (installExtensions api R w)) =
              final_host (executeCommand api) (cmds @ reload) (host w) \<and>
            subseq (toDelete L R) L \<and> subseq (toInstall L R) R"
  using installExtensions_executed [OF assms, of R w] installExtensions_host [OF assms, of R w]
  by (simp add: Let_def batch_commands_def toDelete_def toInstall_def)

theorem uninstalls_before_installs_witness:
  "proceeds demo_host \<and>
   executed (trace (snd (installExtensions demo_host [''B'', ''C''] (demo_world [ext ''A'', ext ''B''])))) =
     [UninstallExtension ''A'', InstallExtension ''C''] \<and>
   host (snd (installExtensions demo_host [''B'', ''C''] (demo_world [ext ''A'', ext ''B'']))) =
     [ext ''B'', ext ''C'']"
proof -
  have p: "proceeds demo_host" by (simp add: proceeds_def demo_host_def)
  have r: "reloadAnswer demo_host = Some ''Later''" "executeCommand demo_host = demo_execute"
    by (simp_all add: demo_host_def)
  from uninstalls_before_installs [OF p, of "demo_world [ext ''A'', ext ''B'']" "[''B'', ''C'']"] p
  show ?thesis
    by (simp add: Let_def toDelete_def toInstall_def demo_world_def ext_def reload_commands_def r
          demo_execute_def)
qed

section \<open>Failures inside the batch\<close>

lemma failures_append: "failures (xs @ ys) = failures xs + failures ys"
  by (simp add: failures_def)

lemma successes_append: "successes (xs @ ys) = successes xs + successes ys"
  by (simp add: successes_def)

lemma failures_logs: "failures (logs tr) = failures tr"
  by (induction tr rule: logs.induct) (simp_all add: failures_def)

lemma successes_logs: "successes (logs tr) = successes tr"
  by (induction tr rule: logs.induct) (simp_all add: successes_def)

lemma failures_uninstall_logs:
  "length bs = length ids \<Longrightarrow>
     failures (map2 uninstall_log ids bs) = length (filter (\<lambda>ok. \<not> ok) bs)"
  by (induction ids bs rule: list_induct2') (simp_all add: failures_def uninstall_log_def)

lemma failures_install_logs:
  "length bs = length ids \<Longrightarrow>
     failures (map2 install_log ids bs) = length (filter (\<lambda>ok. \<not> ok) bs)"
  by (induction ids bs rule: list_induct2') (simp_all add: failures_def install_log_def)

lemma successes_uninstall_logs:
  "length bs = length ids \<Longrightarrow>
     successes (map2 uninstall_log ids bs) = length (filter (\<lambda>ok. ok) bs)"
  by (induction ids bs rule: list_induct2') (simp_all add: successes_def uninstall_log_def)

lemma successes_install_logs:
  "length bs = length ids \<Longrightarrow>
     successes (map2 install_log ids bs) = length (filter (\<lambda>ok. ok) bs)"
  by (induction ids bs rule: list_induct2') (simp_all add: successes_def install_log_def)

lemma syncBatch_failures:
  "failures (trace (snd (snd (syncBatch api ins del w)))) =
     failures (trace w) +
     length (filter (\<lambda>ok. \<not> ok) (outcomes (executeCommand api) (batch_commands ins del) (host w)))"
proof -
  have "failures (trace (snd (snd (syncBatch api ins del w)))) =
        failures (logs (trace (snd (snd (syncBatch api ins del w)))))"
    by (simp add: failures_logs)
  also have "\<dots> = failures (trace w) +
     length (filter (\<lambda>ok. \<not> ok) (outcomes (executeCommand api) (batch_commands ins del) (host w)))"
    by (simp add: syncBatch_logs failures_append failures_logs failures_uninstall_logs
          failures_install_logs length_outcomes batch_commands_def outcomes_append)
  finally show ?thesis .
qed

lemma syncBatch_successes:
  "successes (trace (snd (snd (syncBatch api ins del w)))) =
     successes (trace w) +
     length (filter (\<lambda>ok. ok) (outcomes (executeCommand api) (batch_commands ins del) (host w)))"
proof -
  have "successes (trace (snd (snd (syncBatch api ins del w)))) =
        successes (logs (trace (snd (snd (syncBatch api ins del w)))))"
    by (simp add: successes_logs)
  also have "\<dots> = successes (trace w) +
     length (filter (\<lambda>ok. ok) (outcomes (executeCommand api) (batch_commands ins del) (host w)))"
    by (simp add: syncBatch_logs successes_append successes_logs successes_uninstall_logs
          successes_install_logs length_outcomes batch_commands_def outcomes_append)
  finally show ?thesis .
qed

lemma count_true_false:
  "length (filter (\<lambda>ok. ok) bs) + length (filter (\<lambda>ok. \<not> ok) bs) = length bs"
  by (induction bs) simp_all

text \<open>
  Claim C6. In a batch of N uninstall and install actions of which exactly one is
  rejected by the host, all N commands are still executed, in the batch's order; the
  rejected one leaves one error entry in the log and each of the other N - 1 leaves its
  success entry, at the position of its action; the counter reaches N, and the host
  state is the one obtained by running all N commands in sequence.
\<close>

theorem one_failure_does_not_abort_batch:
  assumes "length (filter (\<lambda>ok. \<not> ok)
             (outcomes (executeCommand api) (batch_commands ins del) (host w))) = 1"
  shows "case syncBatch api ins del w of
           (completed, needsReload, w') \<Rightarrow>
             completed = length del + length ins \<and>
             executed (trace w') = executed (trace w) @ batch_commands ins del \<and>
             logs (trace w') =
               logs (trace w) @
               map2 uninstall_log del
                 (outcomes (executeCommand api) (map UninstallExtension del) (host w)) @
               map2 install_log ins
                 (outcomes (executeCommand api) (map InstallExtension ins)
                    (final_host (executeCommand api) (map UninstallExtension del) (host w))) \<and>
             failures (trace w') = failures (trace w) + 1 \<and>
             successes (trace w') = successes (trace w) + (length del + length ins - 1) \<and>
             host w' = final_host (executeCommand api) (batch_commands ins del) (host w)"
proof -
  obtain completed needsReload w' where s: "syncBatch api ins del w = (completed, needsReload, w')"
    by (cases "syncBatch api ins del w")
  have n: "length (outcomes (executeCommand api) (batch_commands ins del) (host w)) =
             length del + length ins"
    by (simp add: length_outcomes batch_commands_def)
  from count_true_false [of "outcomes (executeCommand api) (batch_commands ins del) (host w)"] assms n
  have t: "length (filter (\<lambda>ok. ok) (outcomes (executeCommand api) (batch_commands ins del) (host w)))
            = length del + length ins - 1"
    by simp
  from syncBatch_count [of api ins del w] s have 1: "completed = length del + length ins" by simp
  from syncBatch_executed [of api ins del w] s
  have 2: "executed (trace w') = executed (trace w) @ batch_commands ins del" by simp
  from syncBatch_logs [of api ins del w] s
  have 3: "logs (trace w') =
               logs (trace w) @
               map2 uninstall_log del
                 (outcomes (executeCommand api) (map UninstallExtension del) (host w)) @
               map2 install_log ins
                 (outcomes (executeCommand api) (map InstallExtension ins)
                    (final_host (executeCommand api) (map UninstallExtension del) (host w)))"
    by simp
  from syncBatch_failures [of api ins del w] s assms
  have 4: "failures (trace w') = failures (trace w) + 1" by simp
  from syncBatch_successes [of api ins del w] s t
  have 5: "successes (trace w') = successes (trace w) + (length del + length ins - 1)" by simp
  from syncBatch_host [of api ins del w] s
  have 6: "host w' = final_host (executeCommand api) (batch_commands ins del) (host w)" by simp
  from 1 2 3 4 5 6 show ?thesis by (simp add: s)
qed

lemma demo_executeCommand [simp]: "executeCommand demo_host = demo_execute"
  by (simp add: demo_host_def)

theorem one_failure_does_not_abort_batch_witness:
  "length (filter (\<lambda>ok. \<not> ok)
      (outcomes (executeCommand demo_host) (batch_commands [''bad'', ''C''] [''A''])
         (host (demo_world [ext ''A''])))) = 1 \<and>
   (case syncBatch demo_host [''bad'', ''C''] [''A''] (demo_world [ext ''A'']) of
      (completed, needsReload, w') \<Rightarrow>
        completed = 3 \<and>
        executed (trace w') = [UninstallExtension ''A'', InstallExtension ''bad'', InstallExtension ''C''] \<and>
        logs (trace w') =
          [Log Info ''Uninstalled extension: A'' None,
           Log Err ''Failed to install bad'' (Some (CommandFailure (InstallExtension ''bad''))),
           Log Info ''Installed extension: C'' None] \<and>
        failures (trace w') = 1 \<and> successes (trace w') = 2 \<and> host w' = [ext ''C''])"
proof -
  have h: "length (filter (\<lambda>ok. \<not> ok)
      (outcomes (executeCommand demo_host) (batch_commands [''bad'', ''C''] [''A''])
         (host (demo_world [ext ''A''])))) = 1"
    by (simp add: batch_commands_def demo_world_def demo_execute_def ext_def)
  from one_failure_does_not_abort_batch [OF h] h show ?thesis
    by (simp add: batch_commands_def demo_world_def demo_execute_def ext_def
          uninstall_log_def install_log_def failures_def successes_def split: prod.splits)
qed

section \<open>Declining the confirmation\<close>

lemma sublist_prepend: "sublist xs ys \<Longrightarrow> sublist xs (zs @ ys)"
  unfolding sublist_def by (metis append.assoc)

lemma sublist_extend: "sublist xs ys \<Longrightarrow> sublist xs (ys @ zs)"
  unfolding sublist_def by (metis append.assoc)

lemma sublist_join: "i \<in> set xs \<Longrightarrow> sublist i (join sep xs)"
proof (induction sep xs rule: join.induct)
  case (1 sep)
  then show ?case by simp
next
  case (2 sep x)
  then show ?case by simp
next
  case (3 sep x y ys)
  show ?case
  proof (cases "i = x")
    case True
    then show ?thesis by simp
  next
    case False
    with 3 have "sublist i (join sep (y # ys))" by simp
    then have "sublist i (x @ sep @ join sep (y # ys))"
      by (intro sublist_prepend)
    then show ?thesis by simp
  qed
qed

lemma sublist_sections:
  assumes "i \<in> set ins \<union> set del" and "h1 \<noteq> []" and "h2 \<noteq> []"
  shows "sublist i
     (join sep2
       (filter (\<lambda>s. s \<noteq> [])
          [if length ins > 0 then h1 @ n1 @ join sep ins else [],
           if length del > 0 then h2 @ n2 @ join sep del else []]))"
proof -
  have a: "sublist i (h1 @ n1 @ join sep ins)" if "i \<in> set ins"
    using that by (intro sublist_prepend sublist_join)
  have b: "sublist i (h2 @ n2 @ join sep del)" if "i \<in> set del"
    using that by (intro sublist_prepend sublist_join)
  show ?thesis
  proof (cases "ins = []")
    case True
    with assms have d: "i \<in> set del" by simp
    then have "del \<noteq> []" by auto
    with True b [OF d] assms(3) show ?thesis by simp
  next
    case False
    show ?thesis
    proof (cases "del = []")
      case True
      with assms have d: "i \<in> set ins" by simp
      with True False a [OF d] assms(2) show ?thesis by simp
    next
      case ne: False
      from assms(1) consider "i \<in> set ins" | "i \<in> set del" by blast
      then have "sublist i ((h1 @ n1 @ join sep ins) @ sep2 @ (h2 @ n2 @ join sep del))"
      proof cases
        case 1
        from a [OF 1] show ?thesis by (rule sublist_extend)
      next
        case 2
        from b [OF 2] have "sublist i (sep2 @ (h2 @ n2 @ join sep del))"
          by (rule sublist_prepend)
        then show ?thesis by (rule sublist_prepend)
      qed
      with False ne assms(2,3) show ?thesis by simp
    qed
  qed
qed

lemma sublist_details:
  assumes "i \<in> set ins \<union> set del"
  shows "sublist i (details ins del)"
  unfolding details_def
  by (rule sublist_sections [OF assms]) simp_all

text \<open>
  Claim C8. With confirmation enabled, every answer to the prompt other than "Yes"
  (also a dismissed prompt) makes \<open>installExtensions\<close> return normally with the host's
  extension state and the files unchanged and no command executed. After the prompt,
  "Show Details" shows one more message, \<open>details\<close>, in which every identifier of
  \<open>toInstall\<close> and \<open>toDelete\<close> occurs, and then returns; any other answer shows nothing
  more.
\<close>

theorem non_affirmative_answer_changes_nothing:
  assumes "confirmation_enabled api" and "warningAnswer api \<noteq> Some ''Yes''"
  shows "let L = getExtensions api (host w); ins = toInstall L R; del = toDelete L R;
             w' = snd (installExtensions api R w)
         in fst (installExtensions api R w) = Inr () \<and>
            host w' = host w \<and> files w' = files w \<and> executed (trace w') = executed (trace w) \<and>
            (ins \<noteq> [] \<or> del \<noteq> [] \<longrightarrow>
               trace w' = trace w @ ShowWarningMessage (confirm_message ins del) #
                 (if warningAnswer api = Some ''Show Details''
                  then [ShowInformationMessage (details ins del)] else [])) \<and>
            (\<forall>i \<in> set ins \<union> set del. sublist i (details ins del))"
  using assms sublist_details
  by (auto simp add: Let_def installExtensions_def confirmation_enabled_def emit_def executed_append)

lemma asking_getExtensions [simp]:
  "getExtensions (asking_host a) h = filter (\<lambda>i. i \<noteq> ''E'') (map ext_id (filter (\<lambda>e. \<not> isBuiltin e) h))"
  by (simp add: getExtensions_def demo_host_def asking_host_def)

theorem non_affirmative_answer_changes_nothing_witness:
  "confirmation_enabled (asking_host (Some ''Show Details'')) \<and>
   warningAnswer (asking_host (Some ''Show Details'')) \<noteq> Some ''Yes'' \<and>
   installExtensions (asking_host (Some ''Show Details'')) [''B'', ''C''] (demo_world [ext ''A'', ext ''B'']) =
     (Inr (),
      \<lparr>files = Map.empty, host = [ext ''A'', ext ''B''],
       trace = [ShowWarningMessage (confirm_message [''C''] [''A'']),
                ShowInformationMessage (''To Install:'' @ [CHR 0x0A] @ ''C'' @ [CHR 0x0A, CHR 0x0A] @
                   ''To Remove:'' @ [CHR 0x0A] @ ''A'')]\<rparr>) \<and>
   sublist ''A'' (details [''C''] [''A'']) \<and> sublist ''C'' (details [''C''] [''A''])"
proof -
  have c: "confirmation_enabled (asking_host (Some ''Show Details''))"
    by (simp add: confirmation_enabled_def asking_host_def)
  have a: "warningAnswer (asking_host (Some ''Show Details'')) \<noteq> Some ''Yes''"
    by (simp add: asking_host_def)
  have d: "details [''C''] [''A''] = ''To Install:'' @ [CHR 0x0A] @ ''C'' @ [CHR 0x0A, CHR 0x0A] @
                   ''To Remove:'' @ [CHR 0x0A] @ ''A''"
    by (simp add: details_def)
  have w: "warningAnswer (asking_host (Some ''Show Details'')) = Some ''Show Details''"
    by (simp add: asking_host_def)
  have t: "toInstall [''A'', ''B''] [''B'', ''C''] = [''C'']" "toDelete [''A'', ''B''] [''B'', ''C''] = [''A'']"
    by (simp_all add: toInstall_def toDelete_def)
  have g: "getExtensions (asking_host (Some ''Show Details'')) (host (demo_world [ext ''A'', ext ''B''])) = [''A'', ''B'']"
    by (simp add: demo_world_def ext_def)
  from non_affirmative_answer_changes_nothing [OF c a, of "demo_world [ext ''A'', ext ''B'']" "[''B'', ''C'']"]
  have "fst (installExtensions (asking_host (Some ''Show Details'')) [''B'', ''C''] (demo_world [ext ''A'', ext ''B''])) = Inr () \<and>
        host (snd (installExtensions (asking_host (Some ''Show Details'')) [''B'', ''C''] (demo_world [ext ''A'', ext ''B'']))) = [ext ''A'', ext ''B''] \<and>
        files (snd (installExtensions (asking_host (Some ''Show Details'')) [''B'', ''C''] (demo_world [ext ''A'', ext ''B'']))) = Map.empty \<and>
        trace (snd (installExtensions (asking_host (Some ''Show Details'')) [''B'', ''C''] (demo_world [ext ''A'', ext ''B'']))) =
           [ShowWarningMessage (confirm_message [''C''] [''A'']), ShowInformationMessage (details [''C''] [''A''])] \<and>
        sublist ''A'' (details [''C''] [''A'']) \<and> sublist ''C'' (details [''C''] [''A''])"
    unfolding Let_def g t w by (simp add: demo_world_def)
  then show ?thesis
    using c a unfolding d by (cases "installExtensions (asking_host (Some ''Show Details'')) [''B'', ''C''] (demo_world [ext ''A'', ext ''B''])")
      (auto simp add: demo_world_def)
qed

section \<open>The reconciler acts on the two differences\<close>

lemma uninstall_loop_prefix:
  "prefix (trace w) (trace (snd (snd (uninstall_loop api tot ids (c, nr, w)))))"
proof (induction ids arbitrary: c nr w)
  case Nil
  show ?case by simp
next
  case (Cons i ids)
  have "prefix (trace w) (trace (uninstall_step api tot i c w))"
    by (simp add: uninstall_step_def)
  also have "prefix (trace (uninstall_step api tot i c w))
      (trace (snd (snd (uninstall_loop api tot (i # ids) (c, nr, w)))))"
    unfolding uninstall_loop_Cons by (rule Cons.IH)
  finally show ?case .
qed

lemma install_loop_prefix:
  "prefix (trace w) (trace (snd (snd (install_loop api tot ids (c, nr, w)))))"
proof (induction ids arbitrary: c nr w)
  case Nil
  show ?case by simp
next
  case (Cons i ids)
  have "prefix (trace w) (trace (install_step api tot i c w))"
    by (simp add: install_step_def)
  also have "prefix (trace (install_step api tot i c w))
      (trace (snd (snd (install_loop api tot (i # ids) (c, nr, w)))))"
    unfolding install_loop_Cons by (rule Cons.IH)
  finally show ?case .
qed

lemma syncBatch_prefix: "prefix (trace w) (trace (snd (snd (syncBatch api ins del w))))"
proof -
  obtain c nr w1 where u: "uninstall_loop api (length ins + length del) del (0, False, w) = (c, nr, w1)"
    by (cases "uninstall_loop api (length ins + length del) del (0, False, w)")
  from uninstall_loop_prefix [of w api "length ins + length del" del 0 False] u
  have "prefix (trace w) (trace w1)" by simp
  also have "prefix (trace w1) (trace (snd (snd (syncBatch api ins del w))))"
    unfolding syncBatch_unfold [OF u] by (rule install_loop_prefix)
  finally show ?thesis .
qed

lemma afterBatch_prefix: "prefix (trace w) (trace (snd (afterBatch api nr w)))"
  by (simp add: afterBatch_def emit_def Let_def split: prod.splits)

lemma installExtensions_prompt:
  assumes "confirmation_enabled api"
    and "\<not> (toInstall (getExtensions api (host w)) R = [] \<and> toDelete (getExtensions api (host w)) R = [])"
  shows "prefix (trace w @ [ShowWarningMessage
                    (confirm_message (toInstall (getExtensions api (host w)) R)
                       (toDelete (getExtensions api (host w)) R))])
           (trace (snd (installExtensions api R w)))"
proof -
  let ?ins = "toInstall (getExtensions api (host w)) R"
  let ?del = "toDelete (getExtensions api (host w)) R"
  let ?w1 = "emit (ShowWarningMessage (confirm_message ?ins ?del)) w"
  have t1: "trace ?w1 = trace w @ [ShowWarningMessage (confirm_message ?ins ?del)]"
    by (simp add: emit_def)
  show ?thesis
  proof (cases "warningAnswer api = Some ''Yes''")
    case True
    have i: "installExtensions api R w =
        afterBatch api (fst (snd (syncBatch api ?ins ?del ?w1))) (snd (snd (syncBatch api ?ins ?del ?w1)))"
      using assms True
      by (cases "?ins = []")
         (simp_all add: installExtensions_def confirmation_enabled_def Let_def case_prod_beta)
    have a: "prefix (trace ?w1) (trace (snd (snd (syncBatch api ?ins ?del ?w1))))"
      by (rule syncBatch_prefix)
    have b: "prefix (trace (snd (snd (syncBatch api ?ins ?del ?w1))))
        (trace (snd (afterBatch api (fst (snd (syncBatch api ?ins ?del ?w1)))
                       (snd (snd (syncBatch api ?ins ?del ?w1))))))"
      by (rule afterBatch_prefix)
    from prefix_order.trans [OF a b] show ?thesis unfolding t1 [symmetric] i .
  next
    case False
    with assms show ?thesis
      by (cases "?ins = []")
         (simp_all add: installExtensions_def confirmation_enabled_def Let_def emit_def)
  qed
qed

lemma installExtensions_not_proceeds:
  assumes "\<not> proceeds api"
  shows "confirmation_enabled api" and "warningAnswer api \<noteq> Some ''Yes''"
    and "executed (trace (snd (installExtensions api R w))) = executed (trace w)"
    and "host (snd (installExtensions api R w)) = host w"
proof -
  from assms show c: "confirmation_enabled api"
    by (simp add: proceeds_def confirmation_enabled_def split: if_splits)
  from assms show a: "warningAnswer api \<noteq> Some ''Yes''"
    by (simp add: proceeds_def split: if_splits)
  from c a show "executed (trace (snd (installExtensions api R w))) = executed (trace w)"
    by (simp add: Let_def installExtensions_def confirmation_enabled_def emit_def executed_append)
  from c a show "host (snd (installExtensions api R w)) = host w"
    by (simp add: Let_def installExtensions_def confirmation_enabled_def emit_def)
qed

lemma batch_commands_empty: "(batch_commands ins del = []) = (ins = [] \<and> del = [])"
  by (auto simp: batch_commands_def)

lemma installExtensions_in_sync_iff:
  "(installExtensions api R w =
      (Inr (), emit (ShowInformationMessage ''Extensions are already in sync'') w)) =
   (set (getExtensions api (host w)) = set R)"
proof
  assume "set (getExtensions api (host w)) = set R"
  then show "installExtensions api R w =
      (Inr (), emit (ShowInformationMessage ''Extensions are already in sync'') w)"
    by (rule installExtensions_in_sync)
next
  let ?ins = "toInstall (getExtensions api (host w)) R"
  let ?del = "toDelete (getExtensions api (host w)) R"
  assume r: "installExtensions api R w =
      (Inr (), emit (ShowInformationMessage ''Extensions are already in sync'') w)"
  show "set (getExtensions api (host w)) = set R"
  proof (rule ccontr)
    assume "set (getExtensions api (host w)) \<noteq> set R"
    then have ne: "\<not> (?ins = [] \<and> ?del = [])" by (simp add: delta_empty_iff)
    show False
    proof (cases "proceeds api")
      case True
      from installExtensions_executed [OF True, of R w] r
      have "batch_commands ?ins ?del = []"
        by (simp add: emit_def executed_append)
      with ne show False by (simp add: batch_commands_empty)
    next
      case False
      then have "confirmation_enabled api" by (rule installExtensions_not_proceeds)
      from installExtensions_prompt [OF this ne] r show False
        by (simp add: emit_def)
    qed
  qed
qed

text \<open>
  Claim C1. Let L be the local list that \<open>installExtensions\<close> reads and R the remote list
  it is given. The lists it computes, \<open>toInstall\<close> and \<open>toDelete\<close>, have as their sets
  the differences R - L and L - R. It answers with nothing but "Extensions are already in
  sync" exactly when L and R are equal as sets, that is when both differences are empty;
  then no prompt is shown, no command is executed and the world is otherwise unchanged.
  When they differ, the prompt (if confirmation is enabled) carries the sizes of these
  two lists, and a run that goes ahead executes exactly the uninstalls of \<open>toDelete\<close> and
  the installs of \<open>toInstall\<close>; a run that is declined executes nothing.
\<close>

theorem reconciler_acts_on_set_differences:
  "let L = getExtensions api (host w); ins = toInstall L R; del = toDelete L R;
       w' = snd (installExtensions api R w)
   in set ins = set R - set L \<and> set del = set L - set R \<and>
      ((ins = [] \<and> del = []) = (set L = set R)) \<and>
      ((installExtensions api R w =
          (Inr (), emit (ShowInformationMessage ''Extensions are already in sync'') w)) =
       (set L = set R)) \<and>
      (confirmation_enabled api \<and> set L \<noteq> set R \<longrightarrow>
         prefix (trace w @ [ShowWarningMessage (confirm_message ins del)]) (trace w')) \<and>
      (proceeds api \<longrightarrow>
         executed (trace w') =
           executed (trace w) @ map UninstallExtension del @ map InstallExtension ins @
           reload_commands api (map UninstallExtension del @ map InstallExtension ins) (host w)) \<and>
      (\<not> proceeds api \<longrightarrow> executed (trace w') = executed (trace w) \<and> host w' = host w)"
  unfolding Let_def
proof (intro conjI impI)
  show "set (toInstall (getExtensions api (host w)) R) = set R - set (getExtensions api (host w))"
    by (rule set_toInstall)
  show "set (toDelete (getExtensions api (host w)) R) = set (getExtensions api (host w)) - set R"
    by (rule set_toDelete)
  show "(toInstall (getExtensions api (host w)) R = [] \<and> toDelete (getExtensions api (host w)) R = []) =
      (set (getExtensions api (host w)) = set R)"
    by (rule delta_empty_iff)
  show "(installExtensions api R w =
          (Inr (), emit (ShowInformationMessage ''Extensions are already in sync'') w)) =
       (set (getExtensions api (host w)) = set R)"
    by (rule installExtensions_in_sync_iff)
next
  assume "confirmation_enabled api \<and> set (getExtensions api (host w)) \<noteq> set R"
  then show "prefix (trace w @ [ShowWarningMessage
                (confirm_message (toInstall (getExtensions api (host w)) R)
                   (toDelete (getExtensions api (host w)) R))])
           (trace (snd (installExtensions api R w)))"
    by (intro installExtensions_prompt) (simp_all add: delta_empty_iff)
next
  assume "proceeds api"
  from installExtensions_executed [OF this, of R w]
  show "executed (trace (snd (installExtensions api R w))) =
           executed (trace w) @ map UninstallExtension (toDelete (getExtensions api (host w)) R) @
           map InstallExtension (toInstall (getExtensions api (host w)) R) @
           reload_commands api
             (map UninstallExtension (toDelete (getExtensions api (host w)) R) @
              map InstallExtension (toInstall (getExtensions api (host w)) R)) (host w)"
    by (simp add: batch_commands_def)
next
  assume a: "\<not> proceeds api"
  from a show "executed (trace (snd (installExtensions api R w))) = executed (trace w)"
    by (rule installExtensions_not_proceeds)
  from a show "host (snd (installExtensions api R w)) = host w"
    by (rule installExtensions_not_proceeds)
qed

theorem reconciler_acts_on_set_differences_witness:
  "set (getExtensions demo_host (host (demo_world [ext ''A'', ext ''B'']))) = set [''B'', ''A''] \<and>
   installExtensions demo_host [''B'', ''A''] (demo_world [ext ''A'', ext ''B'']) =
     (Inr (), \<lparr>files = Map.empty, host = [ext ''A'', ext ''B''],
               trace = [ShowInformationMessage ''Extensions are already in sync'']\<rparr>) \<and>
   proceeds demo_host \<and>
   set (getExtensions demo_host (host (demo_world [ext ''A'', ext ''B'']))) \<noteq> set [''B'', ''C''] \<and>
   toInstall (getExtensions demo_host (host (demo_world [ext ''A'', ext ''B'']))) [''B'', ''C''] = [''C''] \<and>
   toDelete (getExtensions demo_host (host (demo_world [ext ''A'', ext ''B'']))) [''B'', ''C''] = [''A''] \<and>
   executed (trace (snd (installExtensions demo_host [''B'', ''C''] (demo_world [ext ''A'', ext ''B''])))) =
     [UninstallExtension ''A'', InstallExtension ''C''] \<and>
   installExtensions demo_host [''B'', ''C''] (demo_world [ext ''A'', ext ''B'']) \<noteq>
     (Inr (), emit (ShowInformationMessage ''Extensions are already in sync'')
                (demo_world [ext ''A'', ext ''B''])) \<and>
   confirmation_enabled (asking_host (Some ''Cancel'')) \<and> \<not> proceeds (asking_host (Some ''Cancel'')) \<and>
   prefix [ShowWarningMessage (confirm_message [''C''] [''A''])]
     (trace (snd (installExtensions (asking_host (Some ''Cancel'')) [''B'', ''C'']
                    (demo_world [ext ''A'', ext ''B''])))) \<and>
   executed (trace (snd (installExtensions (asking_host (Some ''Cancel'')) [''B'', ''C'']
                    (demo_world [ext ''A'', ext ''B''])))) = [] \<and>
   host (snd (installExtensions (asking_host (Some ''Cancel'')) [''B'', ''C'']
                    (demo_world [ext ''A'', ext ''B'']))) = [ext ''A'', ext ''B'']"
proof -
  let ?w = "demo_world [ext ''A'', ext ''B'']"
  have g: "getExtensions demo_host (host ?w) = [''A'', ''B'']"
    "getExtensions (asking_host (Some ''Cancel'')) (host ?w) = [''A'', ''B'']"
    by (simp_all add: demo_world_def ext_def)
  have d: "toInstall [''A'', ''B''] [''B'', ''C''] = [''C'']" "toDelete [''A'', ''B''] [''B'', ''C''] = [''A'']"
    by (simp_all add: toInstall_def toDelete_def)
  have s1: "set [''A'', ''B''] = set [''B'', ''A'']" by (simp add: insert_commute)
  have "''A'' \<in> set [''A'', ''B'']" and "''A'' \<notin> set [''B'', ''C'']" by simp_all
  then have s2: "set [''A'', ''B''] \<noteq> set [''B'', ''C'']" by blast
  have p: "proceeds demo_host" by (simp add: proceeds_def demo_host_def)
  have c: "confirmation_enabled (asking_host (Some ''Cancel''))"
    by (simp add: confirmation_enabled_def asking_host_def)
  have np: "\<not> proceeds (asking_host (Some ''Cancel''))"
    by (simp add: proceeds_def asking_host_def)
  have r: "reload_commands demo_host [UninstallExtension ''A'', InstallExtension ''C''] [ext ''A'', ext ''B''] = []"
    by (simp add: reload_commands_def demo_host_def)
  have h: "host ?w = [ext ''A'', ext ''B'']" "trace ?w = []" by (simp_all add: demo_world_def)
  from reconciler_acts_on_set_differences [of demo_host ?w "[''B'', ''A'']"] s1
  have 1: "installExtensions demo_host [''B'', ''A''] ?w =
      (Inr (), emit (ShowInformationMessage ''Extensions are already in sync'') ?w)"
    unfolding Let_def g by blast
  from reconciler_acts_on_set_differences [of demo_host ?w "[''B'', ''C'']"] s2 p
  have 2: "executed (trace (snd (installExtensions demo_host [''B'', ''C''] ?w))) =
             [UninstallExtension ''A'', InstallExtension ''C''] \<and>
           installExtensions demo_host [''B'', ''C''] ?w \<noteq>
             (Inr (), emit (ShowInformationMessage ''Extensions are already in sync'') ?w)"
    unfolding Let_def g d by (simp add: r h)
  from reconciler_acts_on_set_differences [of "asking_host (Some ''Cancel'')" ?w "[''B'', ''C'']"] s2 c np
  have 3: "prefix [ShowWarningMessage (confirm_message [''C''] [''A''])]
             (trace (snd (installExtensions (asking_host (Some ''Cancel'')) [''B'', ''C''] ?w))) \<and>
           executed (trace (snd (installExtensions (asking_host (Some ''Cancel'')) [''B'', ''C''] ?w))) = [] \<and>
           host (snd (installExtensions (asking_host (Some ''Cancel'')) [''B'', ''C''] ?w)) = [ext ''A'', ext ''B'']"
    unfolding Let_def g d by (simp add: h)
  have one: "installExtensions demo_host [''B'', ''A''] ?w =
     (Inr (), \<lparr>files = Map.empty, host = [ext ''A'', ext ''B''],
               trace = [ShowInformationMessage ''Extensions are already in sync'']\<rparr>)"
    unfolding 1 by (simp add: emit_def demo_world_def)
  from 2 have f2a: "executed (trace (snd (installExtensions demo_host [''B'', ''C''] ?w))) =
             [UninstallExtension ''A'', InstallExtension ''C'']"
    and f2b: "installExtensions demo_host [''B'', ''C''] ?w \<noteq>
             (Inr (), emit (ShowInformationMessage ''Extensions are already in sync'') ?w)"
    by blast+
  from 3 have f3a: "prefix [ShowWarningMessage (confirm_message [''C''] [''A''])]
             (trace (snd (installExtensions (asking_host (Some ''Cancel'')) [''B'', ''C''] ?w)))"
    and f3b: "executed (trace (snd (installExtensions (asking_host (Some ''Cancel'')) [''B'', ''C''] ?w))) = []"
    and f3c: "host (snd (installExtensions (asking_host (Some ''Cancel'')) [''B'', ''C''] ?w)) = [ext ''A'', ext ''B'']"
    by blast+
  show ?thesis
    unfolding g
    by (intro conjI s1 s2 one p d f2a f2b c np f3a f3b f3c)
qed

section \<open>Excluded extensions\<close>

lemma excluded_not_local:
  "excludeExtensions api = Some ex \<Longrightarrow> e \<in> set ex \<Longrightarrow> e \<notin> set (getExtensions api h)"
  by (simp add: getExtensions_def)

lemma excluded_delta:
  assumes "excludeExtensions api = Some ex" and "e \<in> set ex"
  shows "e \<notin> set (toDelete (getExtensions api h) R)"
    and "(e \<in> set (toInstall (getExtensions api h) R)) = (e \<in> set R)"
  using excluded_not_local [OF assms, of h] by (auto simp: toDelete_def toInstall_def)

text \<open>
  Claim C3. The exclusion list is applied to the local list only. With \<open>E\<close> excluded,
  installed locally and present in the remote list, the filtered local list is empty, so
  \<open>E\<close> is in \<open>toInstall\<close> and the install command for \<open>E\<close> is executed.
\<close>

theorem excluded_remote_extension_is_installed:
  "excludeExtensions demo_host = Some [''E''] \<and>
   getExtensions demo_host (host (demo_world [ext ''E''])) = [] \<and>
   toInstall (getExtensions demo_host (host (demo_world [ext ''E'']))) [''E''] = [''E''] \<and>
   executed (trace (snd (installExtensions demo_host [''E''] (demo_world [ext ''E''])))) =
     [InstallExtension ''E'']"
proof -
  have p: "proceeds demo_host" by (simp add: proceeds_def demo_host_def)
  have r: "reloadAnswer demo_host = Some ''Later''" by (simp add: demo_host_def)
  have g: "getExtensions demo_host (host (demo_world [ext ''E''])) = []"
    by (simp add: demo_world_def ext_def)
  from installExtensions_executed [OF p, of "[''E'']" "demo_world [ext ''E'']"]
  show ?thesis unfolding g
    by (simp add: toInstall_def toDelete_def batch_commands_def reload_commands_def r demo_world_def
          demo_host_def)
qed

section \<open>Progress increments\<close>

lemma sum_running_percentages:
  "sum_list (map (\<lambda>k. of_nat (Suc k) / of_nat t * 100) [0..<n]) =
     (50 * of_nat n * (of_nat n + 1) / of_nat t :: rat)"
  by (induction n) (simp_all add: add_divide_distrib [symmetric] algebra_simps)

lemma syncBatch_increments_sum:
  assumes "trace w = []" and "0 < length del + length ins"
  shows "sum_list (increments (trace (snd (snd (syncBatch api ins del w))))) =
           50 * (of_nat (length del + length ins) + 1)"
proof -
  define N :: rat where "N = of_nat (length del + length ins)"
  have N: "N \<noteq> 0" using assms(2) unfolding N_def by (simp del: of_nat_add)
  have c: "length ins + length del = length del + length ins" by simp
  have "sum_list (increments (trace (snd (snd (syncBatch api ins del w))))) = 50 * N * (N + 1) / N"
    unfolding syncBatch_increments assms(1) c N_def
    by (simp only: increments.simps append_Nil sum_running_percentages)
  also have "\<dots> = 50 * (N + 1)" using N by simp
  finally show ?thesis unfolding N_def .
qed

text \<open>
  Claim C9. The value passed as \<open>increment\<close> is the running percentage
  \<open>completed / total * 100\<close>, not the share of one action. For one uninstall and one
  install (T = 2) the two reported increments are 50 and 100, which sum to 150; in
  general the increments of a batch of T actions sum to 50 (T + 1). (The
  quotients 1/2 and 2/2 and their products with 100 are exact in binary floating point,
  so the rational values are the ones the program reports.)
\<close>

theorem progress_increments_exceed_100:
  "toDelete [''A''] [''C''] = [''A''] \<and> toInstall [''A''] [''C''] = [''C''] \<and>
   increments (trace (snd (snd (syncBatch demo_host [''C''] [''A''] (demo_world [ext ''A'']))))) =
     [50, 100] \<and>
   sum_list (increments (trace (snd (snd (syncBatch demo_host [''C''] [''A''] (demo_world [ext ''A''])))))) = 150"
  by (simp add: syncBatch_increments demo_world_def toDelete_def toInstall_def)

section \<open>Config locator\<close>

lemma probed_append: "probed (xs @ ys) = probed xs @ probed ys"
  by (induction xs rule: probed.induct) auto

lemma writes_append: "writes (xs @ ys) = writes xs @ writes ys"
  by (induction xs rule: writes.induct) auto

lemma pathExists_simps:
  "fst (pathExists plat path w) = present plat w path"
  "files (snd (pathExists plat path w)) = files w"
  "host (snd (pathExists plat path w)) = host w"
  "probed (trace (snd (pathExists plat path w))) = probed (trace w) @ [path]"
  "writes (trace (snd (pathExists plat path w))) = writes (trace w)"
  "executed (trace (snd (pathExists plat path w))) = executed (trace w)"
  by (auto simp: pathExists_def present_def emit_def probed_append writes_append executed_append
        split: option.splits)

lemma probe_Cons:
  "probe plat (path # paths) w =
     (if present plat w path then (Some (fsPath plat path), snd (pathExists plat path w))
      else probe plat paths (snd (pathExists plat path w)))"
  using pathExists_simps(1) [of plat path w]
  by (cases "pathExists plat path w") (auto split: bool.splits)

lemma present_pathExists [simp]:
  "present plat (snd (pathExists plat q w)) = present plat w"
  by (rule ext) (simp add: present_def pathExists_simps)

lemma probe_result:
  "fst (probe plat paths w) = map_option (fsPath plat) (find (present plat w) paths)"
  by (induction paths arbitrary: w)
     (simp_all add: probe_Cons pathExists_simps del: probe.simps(2))

lemma probe_probed:
  "probed (trace (snd (probe plat paths w))) =
     probed (trace w) @ takeWhile (\<lambda>q. \<not> present plat w q) paths @
       (case find (present plat w) paths of Some q \<Rightarrow> [q] | None \<Rightarrow> [])"
  by (induction paths arbitrary: w)
     (simp_all add: probe_Cons pathExists_simps del: probe.simps(2))

lemma probe_unchanged:
  "files (snd (probe plat paths w)) = files w"
  "host (snd (probe plat paths w)) = host w"
  "writes (trace (snd (probe plat paths w))) = writes (trace w)"
  "executed (trace (snd (probe plat paths w))) = executed (trace w)"
  by (induction paths arbitrary: w)
     (simp_all add: probe_Cons pathExists_simps del: probe.simps(2))

lemma findConfigFile_result:
  "fst (findConfigFile plat app file p w) =
     (case find (present plat w) (getConfigPaths plat app file p) of
        Some q \<Rightarrow> Inr (fsPath plat q)
      | None \<Rightarrow> Inl (FileNotFound (file @ '' does not exist in any of the configuration directories'')))"
  using probe_result [of plat "getConfigPaths plat app file p" w]
  by (cases "probe plat (getConfigPaths plat app file p) w")
     (auto simp: findConfigFile_def split: option.splits)

lemma findConfigFile_probed:
  "probed (trace (snd (findConfigFile plat app file p w))) =
     probed (trace w) @ takeWhile (\<lambda>q. \<not> present plat w q) (getConfigPaths plat app file p) @
       (case find (present plat w) (getConfigPaths plat app file p) of Some q \<Rightarrow> [q] | None \<Rightarrow> [])"
  using probe_probed [of plat "getConfigPaths plat app file p" w]
  by (cases "probe plat (getConfigPaths plat app file p) w")
     (auto simp: findConfigFile_def emit_def probed_append split: option.splits)

lemma findConfigFile_unchanged:
  "files (snd (findConfigFile plat app file p w)) = files w"
  "host (snd (findConfigFile plat app file p w)) = host w"
  "writes (trace (snd (findConfigFile plat app file p w))) = writes (trace w)"
  "executed (trace (snd (findConfigFile plat app file p w))) = executed (trace w)"
  using probe_unchanged [of plat "getConfigPaths plat app file p" w]
  by (cases "probe plat (getConfigPaths plat app file p) w";
      auto simp: findConfigFile_def emit_def writes_append executed_append split: option.splits)+

lemma getConfigPaths_profile:
  "truthy p \<Longrightarrow> \<not> strict_eq p (JStr default_profile) \<Longrightarrow>
     getConfigPaths plat app file p = profile_path plat app file p # default_paths plat app file"
  by (simp add: getConfigPaths_def)

lemma getConfigPaths_default:
  "\<not> truthy p \<or> strict_eq p (JStr default_profile) \<Longrightarrow>
     getConfigPaths plat app file p = default_paths plat app file"
  by (auto simp add: getConfigPaths_def)

text \<open>
  Claim C4, as the code has it. For every non-empty profile id other than the default
  sentinel, the candidate list is the profile-scoped path (base folder, application name,
  \<open>User/profiles/<id>/<file>\<close>) followed by the candidates produced without a profile
  id, so it stands strictly before every platform default. \<open>findConfigFile\<close> probes the
  candidates in list order, stops at the first that exists and returns it, and fails with
  \<open>FileNotFound\<close> after probing all of them when none exists.
\<close>

theorem profile_path_probed_first:
  assumes "s \<noteq> []" and "s \<noteq> default_profile"
  shows "getConfigPaths plat app file (JStr s) =
           (baseFolder plat @ separator plat @ app @ separator plat @ ''User'' @ separator plat
              @ ''profiles'' @ separator plat @ s @ separator plat @ file)
           # getConfigPaths plat app file JNull \<and>
         fst (findConfigFile plat app file (JStr s) w) =
           (case find (present plat w) (getConfigPaths plat app file (JStr s)) of
              Some q \<Rightarrow> Inr (fsPath plat q)
            | None \<Rightarrow> Inl (FileNotFound
                          (file @ '' does not exist in any of the configuration directories''))) \<and>
         probed (trace (snd (findConfigFile plat app file (JStr s) w))) =
           probed (trace w) @
           takeWhile (\<lambda>q. \<not> present plat w q) (getConfigPaths plat app file (JStr s)) @
           (case find (present plat w) (getConfigPaths plat app file (JStr s)) of
              Some q \<Rightarrow> [q] | None \<Rightarrow> [])"
proof -
  from assms have "getConfigPaths plat app file (JStr s) =
      profile_path plat app file (JStr s) # default_paths plat app file"
    by (simp add: getConfigPaths_profile)
  moreover have "getConfigPaths plat app file JNull = default_paths plat app file"
    by (simp add: getConfigPaths_default)
  ultimately show ?thesis
    by (simp add: findConfigFile_result findConfigFile_probed profile_path_def template_def)
qed

lemma demo_platform_simps [simp]:
  "os_platform demo_platform = ''linux''" "HOME demo_platform = Some ''/h''"
  "XDG_CONFIG_HOME demo_platform = None" "homedir demo_platform = ''/h''"
  "fsPath demo_platform = (\<lambda>p. p)" "json5_parse demo_platform = demo_parse"
  "workspaceUri demo_platform = Some ''file:///w''" "writable demo_platform = (\<lambda>p. True)"
  "stringify demo_platform = (\<lambda>v. ''{}'')" "ToString demo_platform = (\<lambda>v. ''[object Object]'')"
  by (simp_all add: demo_platform_def)

lemma demo_default_paths:
  "default_paths demo_platform ''Code'' ''settings.json'' =
     [''/h/.config/Code/User/settings.json'', ''/h/.config/Code/User/settings.json'',
      ''/h/.config/Code/User/settings.json'']"
  "default_paths demo_platform ''Code'' ''keybindings.json'' =
     [''/h/.config/Code/User/keybindings.json'', ''/h/.config/Code/User/keybindings.json'',
      ''/h/.config/Code/User/keybindings.json'']"
  by (simp_all add: default_paths_def env_text_def)

lemma demo_profile_path:
  "profile_path demo_platform ''Code'' ''settings.json'' (JStr s) =
     ''/h/.config/Code/User/profiles/'' @ s @ ''/settings.json''"
  by (simp add: profile_path_def baseFolder_def separator_def env_text_def template_def)

theorem profile_path_probed_first_witness:
  "''abc'' \<noteq> [] \<and> ''abc'' \<noteq> default_profile \<and>
   getConfigPaths demo_platform ''Code'' ''settings.json'' (JStr ''abc'') =
     [''/h/.config/Code/User/profiles/abc/settings.json'',
      ''/h/.config/Code/User/settings.json'', ''/h/.config/Code/User/settings.json'',
      ''/h/.config/Code/User/settings.json''] \<and>
   fst (findConfigFile demo_platform ''Code'' ''settings.json'' (JStr ''abc'')
          (demo_files [(''/h/.config/Code/User/profiles/abc/settings.json'', Regular ''{}''),
                       (''/h/.config/Code/User/settings.json'', Regular ''{}'')])) =
     Inr ''/h/.config/Code/User/profiles/abc/settings.json'' \<and>
   probed (trace (snd (findConfigFile demo_platform ''Code'' ''settings.json'' (JStr ''abc'')
          (demo_files [(''/h/.config/Code/User/profiles/abc/settings.json'', Regular ''{}''),
                       (''/h/.config/Code/User/settings.json'', Regular ''{}'')])))) =
     [''/h/.config/Code/User/profiles/abc/settings.json'']"
proof -
  have a: "''abc'' \<noteq> []" and b: "''abc'' \<noteq> default_profile"
    by (simp_all add: default_profile_def)
  have n: "getConfigPaths demo_platform ''Code'' ''settings.json'' JNull =
     [''/h/.config/Code/User/settings.json'', ''/h/.config/Code/User/settings.json'',
      ''/h/.config/Code/User/settings.json'']"
    by (simp add: getConfigPaths_def demo_default_paths)
  have bf: "baseFolder demo_platform = ''/h/.config''" "separator demo_platform = ''/''"
    by (simp_all add: baseFolder_def separator_def env_text_def)
  from profile_path_probed_first [OF a b, of demo_platform "''Code''" "''settings.json''"
      "demo_files [(''/h/.config/Code/User/profiles/abc/settings.json'', Regular ''{}''),
                       (''/h/.config/Code/User/settings.json'', Regular ''{}'')]"]
  show ?thesis using a b unfolding n bf
    by (simp add: present_def demo_files_def)
qed

text \<open>
  Claim C4 as stated fails for the empty string, which is neither \<open>null\<close> nor the
  default sentinel: the guard \<open>profileId && ...\<close> is false for it, the profile-scoped
  path is not a candidate, and a default path is returned although the profile-scoped
  file exists.
\<close>

theorem empty_profile_id_skips_profile_path:
  "JStr [] \<noteq> JNull \<and> JStr [] \<noteq> JStr default_profile \<and>
   profile_path demo_platform ''Code'' ''settings.json'' (JStr []) =
     ''/h/.config/Code/User/profiles//settings.json'' \<and>
   getConfigPaths demo_platform ''Code'' ''settings.json'' (JStr []) =
     [''/h/.config/Code/User/settings.json'', ''/h/.config/Code/User/settings.json'',
      ''/h/.config/Code/User/settings.json''] \<and>
   findConfigFile demo_platform ''Code'' ''settings.json'' (JStr [])
      (demo_files [(''/h/.config/Code/User/profiles//settings.json'', Regular ''{}''),
                   (''/h/.config/Code/User/settings.json'', Regular ''{}'')]) =
     (Inr ''/h/.config/Code/User/settings.json'',
      \<lparr>files = map_of [(''/h/.config/Code/User/profiles//settings.json'', Regular ''{}''),
                        (''/h/.config/Code/User/settings.json'', Regular ''{}'')],
       host = [],
       trace = [Stat ''/h/.config/Code/User/settings.json'',
                Log Info ''Found file at: /h/.config/Code/User/settings.json'' None]\<rparr>)"
  by (simp add: default_profile_def demo_profile_path getConfigPaths_def demo_default_paths
        findConfigFile_def pathExists_def demo_files_def emit_def)

section \<open>Profile detector\<close>

lemma own_prop_falsy: "\<not> truthy v \<Longrightarrow> own_prop v k = JUndefined"
  by (cases v) simp_all

lemma own_prop_nullish: "nullish v \<Longrightarrow> own_prop v k = JUndefined"
  by (cases v) simp_all

lemma associated_profile_none:
  assumes "\<not> nullish storage" and "\<not> truthy (association plat storage)"
  shows "associated_profile plat storage = Inr default_info"
proof (cases "truthy (if nullish (own_prop storage ''profileAssociations'') then JUndefined
                      else own_prop (own_prop storage ''profileAssociations'') ''workspaces'')")
  case False
  with assms(1) show ?thesis by (simp add: associated_profile_def Let_def)
next
  case True
  then have n: "\<not> nullish (own_prop storage ''profileAssociations'')"
    by (auto split: if_splits)
  show ?thesis
  proof (cases "workspaceUri plat")
    case None
    with assms(1) show ?thesis by (simp add: associated_profile_def Let_def)
  next
    case (Some u)
    with assms(2) n have "u = [] \<or> \<not> truthy (own_prop (own_prop (own_prop storage ''profileAssociations'') ''workspaces'') u)"
      by (auto simp: association_def)
    with assms(1) Some n show ?thesis
      by (auto simp add: associated_profile_def Let_def)
  qed
qed

lemma associated_profile_some:
  assumes "associated_profile plat storage = Inr info"
  shows "info = default_info \<or> (truthy (association plat storage) \<and> info_id info = association plat storage)"
proof (cases "nullish storage \<or> \<not> truthy (association plat storage)")
  case True
  show ?thesis
  proof (cases "nullish storage")
    case n: True
    with assms show ?thesis by (simp add: associated_profile_def)
  next
    case n: False
    with True have "associated_profile plat storage = Inr default_info"
      by (simp add: associated_profile_none)
    with assms show ?thesis by simp
  qed
next
  case False
  then have t: "truthy (association plat storage)" and ns: "\<not> nullish storage" by simp_all
  from t obtain u where u: "workspaceUri plat = Some u" "u \<noteq> []"
    "association plat storage = own_prop (own_prop (own_prop storage ''profileAssociations'') ''workspaces'') u"
    by (auto simp: association_def split: option.splits if_splits)
  from t u(3) have 1: "truthy (own_prop (own_prop storage ''profileAssociations'') ''workspaces'')"
    using own_prop_falsy by fastforce
  then have 2: "\<not> nullish (own_prop storage ''profileAssociations'')"
    using own_prop_nullish by fastforce
  from assms ns u 1 2 t show ?thesis
    by (auto simp add: associated_profile_def Let_def split: sum.splits)
qed

lemma detect_body_absent:
  "files w (fsPath plat (getStoragePath plat app)) = None \<Longrightarrow>
     detect_body plat app w = (Inr default_info, emit (Stat (getStoragePath plat app)) w)"
  by (simp add: detect_body_def pathExists_def)

lemma detect_body_present:
  "files w (fsPath plat (getStoragePath plat app)) \<noteq> None \<Longrightarrow>
     fst (detect_body plat app w) =
       (case files w (getStoragePath plat app) of
          Some (Regular content) \<Rightarrow>
            (case json5_parse plat content of
               None \<Rightarrow> Inl SyntaxError
             | Some storage \<Rightarrow> associated_profile plat storage)
        | _ \<Rightarrow> Inl ReadFailure)"
  by (auto simp add: detect_body_def pathExists_def emit_def Let_def split: option.splits node.splits)

lemma getActiveProfileInfo_result:
  "fst (getActiveProfileInfo plat app w) =
     (case fst (detect_body plat app w) of Inr info \<Rightarrow> info | Inl e \<Rightarrow> default_info)"
  by (cases "detect_body plat app w") (auto simp: getActiveProfileInfo_def split: sum.splits)

text \<open>
  Claim C7. \<open>getActiveProfileInfo\<close> always returns a value. When the storage descriptor
  is absent it returns the default sentinel after the one existence probe. Every error
  raised inside its \<open>try\<close> block (a failed read, a parse error, a property read on
  \<open>null\<close>, \<open>find\<close> on a non-array) is turned into the default sentinel, and so is a
  descriptor that records no truthy association for the current workspace. The only
  other result carries the recorded association as its id.
\<close>

theorem detect_active_never_fails:
  "(files w (fsPath plat (getStoragePath plat app)) = None \<longrightarrow>
      getActiveProfileInfo plat app w = (default_info, emit (Stat (getStoragePath plat app)) w)) \<and>
   (\<forall>e. fst (detect_body plat app w) = Inl e \<longrightarrow>
      fst (getActiveProfileInfo plat app w) = default_info) \<and>
   (files w (fsPath plat (getStoragePath plat app)) \<noteq> None \<and>
    (\<forall>c. files w (getStoragePath plat app) \<noteq> Some (Regular c)) \<longrightarrow>
      fst (detect_body plat app w) = Inl ReadFailure) \<and>
   (\<forall>c. files w (fsPath plat (getStoragePath plat app)) \<noteq> None \<and>
        files w (getStoragePath plat app) = Some (Regular c) \<and> json5_parse plat c = None \<longrightarrow>
      fst (detect_body plat app w) = Inl SyntaxError) \<and>
   (\<forall>c storage. files w (fsPath plat (getStoragePath plat app)) \<noteq> None \<and>
        files w (getStoragePath plat app) = Some (Regular c) \<and>
        json5_parse plat c = Some storage \<and> \<not> truthy (association plat storage) \<longrightarrow>
      fst (getActiveProfileInfo plat app w) = default_info) \<and>
   (fst (getActiveProfileInfo plat app w) = default_info \<or>
    (\<exists>c storage. files w (getStoragePath plat app) = Some (Regular c) \<and>
        json5_parse plat c = Some storage \<and> truthy (association plat storage) \<and>
        info_id (fst (getActiveProfileInfo plat app w)) = association plat storage))"
proof (intro conjI allI impI)
  assume "files w (fsPath plat (getStoragePath plat app)) = None"
  then show "getActiveProfileInfo plat app w = (default_info, emit (Stat (getStoragePath plat app)) w)"
    by (simp add: getActiveProfileInfo_def detect_body_absent)
next
  fix e assume "fst (detect_body plat app w) = Inl e"
  then show "fst (getActiveProfileInfo plat app w) = default_info"
    by (simp add: getActiveProfileInfo_result)
next
  assume "files w (fsPath plat (getStoragePath plat app)) \<noteq> None \<and>
    (\<forall>c. files w (getStoragePath plat app) \<noteq> Some (Regular c))"
  then show "fst (detect_body plat app w) = Inl ReadFailure"
    by (auto simp add: detect_body_present split: option.splits node.splits)
next
  fix c assume "files w (fsPath plat (getStoragePath plat app)) \<noteq> None \<and>
        files w (getStoragePath plat app) = Some (Regular c) \<and> json5_parse plat c = None"
  then show "fst (detect_body plat app w) = Inl SyntaxError"
    by (simp add: detect_body_present)
next
  fix c storage
  assume a: "files w (fsPath plat (getStoragePath plat app)) \<noteq> None \<and>
        files w (getStoragePath plat app) = Some (Regular c) \<and>
        json5_parse plat c = Some storage \<and> \<not> truthy (association plat storage)"
  show "fst (getActiveProfileInfo plat app w) = default_info"
  proof (cases "nullish storage")
    case True
    with a show ?thesis
      by (simp add: getActiveProfileInfo_result detect_body_present associated_profile_def)
  next
    case False
    with a associated_profile_none [of storage plat] show ?thesis
      by (simp add: getActiveProfileInfo_result detect_body_present)
  qed
next
  show "fst (getActiveProfileInfo plat app w) = default_info \<or>
    (\<exists>c storage. files w (getStoragePath plat app) = Some (Regular c) \<and>
        json5_parse plat c = Some storage \<and> truthy (association plat storage) \<and>
        info_id (fst (getActiveProfileInfo plat app w)) = association plat storage)"
  proof (cases "files w (fsPath plat (getStoragePath plat app))")
    case None
    then show ?thesis by (simp add: getActiveProfileInfo_def detect_body_absent)
  next
    case (Some n)
    then have p: "files w (fsPath plat (getStoragePath plat app)) \<noteq> None" by simp
    show ?thesis
    proof (cases "fst (detect_body plat app w)")
      case (Inl e)
      then show ?thesis by (simp add: getActiveProfileInfo_result)
    next
      case (Inr info)
      with detect_body_present [OF p] obtain c storage where
        c: "files w (getStoragePath plat app) = Some (Regular c)"
        "json5_parse plat c = Some storage" "associated_profile plat storage = Inr info"
        by (auto split: option.splits node.splits)
      from associated_profile_some [OF c(3)] c(1,2) Inr show ?thesis
        by (auto simp add: getActiveProfileInfo_result)
    qed
  qed
qed

lemma demo_storage_path:
  "getStoragePath demo_platform ''Code'' = ''/h/.config/Code/User/globalStorage/storage.json''"
  by (simp add: getStoragePath_def baseFolder_def separator_def env_text_def)

lemma associated_profile_example:
  "associated_profile demo_platform
     (JObj [(''profileAssociations'', JObj [(''workspaces'', JObj [(''file:///w'', JStr ''abc'')])]),
            (''userDataProfiles'', JArr [JObj [(''location'', JStr ''abc''), (''name'', JStr ''Work'')]])]) =
     Inr \<lparr>info_id = JStr ''abc'', info_name = JStr ''Work''\<rparr>"
  "associated_profile demo_platform
     (JObj [(''profileAssociations'', JObj [(''workspaces'', JObj [(''file:///w'', JStr ''abc'')])])]) =
     Inr \<lparr>info_id = JStr ''abc'', info_name = JStr ''abc''\<rparr>"
  "associated_profile demo_platform
     (JObj [(''profileAssociations'', JObj [(''workspaces'', JObj [(''file:///w'', JStr ''abc'')])]),
            (''userDataProfiles'', JArr [JNull])]) = Inl TypeError"
  by (simp_all add: associated_profile_def lookup_profile_def Let_def)

theorem detect_active_never_fails_witness:
  "getActiveProfileInfo demo_platform ''Code'' (demo_files []) =
     (default_info, emit (Stat ''/h/.config/Code/User/globalStorage/storage.json'') (demo_files [])) \<and>
   fst (detect_body demo_platform ''Code''
          (demo_files [(''/h/.config/Code/User/globalStorage/storage.json'', Other)])) = Inl ReadFailure \<and>
   fst (getActiveProfileInfo demo_platform ''Code''
          (demo_files [(''/h/.config/Code/User/globalStorage/storage.json'', Other)])) = default_info \<and>
   fst (detect_body demo_platform ''Code''
          (demo_files [(''/h/.config/Code/User/globalStorage/storage.json'', Regular ''{'')])) = Inl SyntaxError \<and>
   fst (getActiveProfileInfo demo_platform ''Code''
          (demo_files [(''/h/.config/Code/User/globalStorage/storage.json'', Regular ''{'')])) = default_info \<and>
   fst (getActiveProfileInfo demo_platform ''Code''
          (demo_files [(''/h/.config/Code/User/globalStorage/storage.json'', Regular ''null'')])) = default_info \<and>
   fst (getActiveProfileInfo demo_platform ''Code''
          (demo_files [(''/h/.config/Code/User/globalStorage/storage.json'', Regular ''{}'')])) = default_info"
proof -
  let ?sp = "''/h/.config/Code/User/globalStorage/storage.json''"
  note t = detect_active_never_fails [of _ demo_platform "''Code''", unfolded demo_storage_path]
  have 1: "getActiveProfileInfo demo_platform ''Code'' (demo_files []) =
     (default_info, emit (Stat ?sp) (demo_files []))"
    using t [of "demo_files []"] by (simp add: demo_files_def)
  have 2: "fst (detect_body demo_platform ''Code'' (demo_files [(?sp, Other)])) = Inl ReadFailure"
    using t [of "demo_files [(?sp, Other)]"] by (simp add: demo_files_def)
  with t [of "demo_files [(?sp, Other)]"]
  have 3: "fst (getActiveProfileInfo demo_platform ''Code'' (demo_files [(?sp, Other)])) = default_info"
    by blast
  have p: "demo_parse ''{'' = None" "demo_parse ''null'' = Some JNull" "demo_parse ''{}'' = Some (JObj [])"
    by (simp_all add: demo_parse_def)
  have 4: "fst (detect_body demo_platform ''Code'' (demo_files [(?sp, Regular ''{'')])) = Inl SyntaxError"
    using t [of "demo_files [(?sp, Regular ''{'')]"] p by (simp add: demo_files_def)
  with t [of "demo_files [(?sp, Regular ''{'')]"]
  have 5: "fst (getActiveProfileInfo demo_platform ''Code'' (demo_files [(?sp, Regular ''{'')])) = default_info"
    by blast
  have a: "\<not> truthy (association demo_platform JNull)" "\<not> truthy (association demo_platform (JObj []))"
    by (simp_all add: association_def)
  have 6: "fst (getActiveProfileInfo demo_platform ''Code'' (demo_files [(?sp, Regular ''null'')])) = default_info"
    using t [of "demo_files [(?sp, Regular ''null'')]"] p a by (simp add: demo_files_def)
  have 7: "fst (getActiveProfileInfo demo_platform ''Code'' (demo_files [(?sp, Regular ''{}'')])) = default_info"
    using t [of "demo_files [(?sp, Regular ''{}'')]"] p a by (simp add: demo_files_def)
  from 1 2 3 4 5 6 7 show ?thesis by blast
qed

section \<open>Reading and writing the local profile\<close>

lemma readConfigFile_manual:
  "globalState this (manual_key t) = Some m \<Longrightarrow> m \<noteq> [] \<Longrightarrow>
     readConfigFile plat this t w = read_and_parse plat t m w"
  by (simp add: readConfigFile_def)

lemma read_and_parse_ok:
  "files w m = Some (Regular c) \<Longrightarrow> json5_parse plat c = Some v \<Longrightarrow>
     read_and_parse plat t m w = (v, w)"
  by (simp add: read_and_parse_def)

lemma updateLocalProfile_globalState:
  "updateLocalProfile plat api (this\<lparr>globalState := g\<rparr>) p w = updateLocalProfile plat api this p w"
  by (simp add: updateLocalProfile_def split: prod.splits sum.splits)

lemma find_None_absent:
  "(\<forall>q \<in> set paths. files w (fsPath plat q) = None) \<Longrightarrow> find (present plat w) paths = None"
  by (induction paths) (simp_all add: present_def)

lemma updateLocalProfile_not_found:
  assumes "\<forall>q \<in> set (getConfigPaths plat (appName this) ''settings.json'' (activeProfileId this)).
             files w (fsPath plat q) = None"
  shows "fst (updateLocalProfile plat api this p w) =
           Inl (FileNotFound ''settings.json does not exist in any of the configuration directories'')"
    and "files (snd (updateLocalProfile plat api this p w)) = files w"
    and "host (snd (updateLocalProfile plat api this p w)) = host w"
    and "writes (trace (snd (updateLocalProfile plat api this p w))) = writes (trace w)"
    and "executed (trace (snd (updateLocalProfile plat api this p w))) = executed (trace w)"
proof -
  obtain r w1 where f: "findConfigFile plat (appName this) ''settings.json'' (activeProfileId this) w = (r, w1)"
    by (cases "findConfigFile plat (appName this) ''settings.json'' (activeProfileId this) w")
  from findConfigFile_result [of plat "appName this" "''settings.json''" "activeProfileId this" w]
    find_None_absent [OF assms] f
  have r: "r = Inl (FileNotFound ''settings.json does not exist in any of the configuration directories'')"
    by simp
  then have u: "updateLocalProfile plat api this p w =
      (Inl (FileNotFound ''settings.json does not exist in any of the configuration directories''), w1)"
    using f by (simp add: updateLocalProfile_def)
  from findConfigFile_unchanged [of plat "appName this" "''settings.json''" "activeProfileId this" w] f
  have "files w1 = files w" "host w1 = host w" "writes (trace w1) = writes (trace w)"
    "executed (trace w1) = executed (trace w)" by simp_all
  with u show
    "fst (updateLocalProfile plat api this p w) =
           Inl (FileNotFound ''settings.json does not exist in any of the configuration directories'')"
    "files (snd (updateLocalProfile plat api this p w)) = files w"
    "host (snd (updateLocalProfile plat api this p w)) = host w"
    "writes (trace (snd (updateLocalProfile plat api this p w))) = writes (trace w)"
    "executed (trace (snd (updateLocalProfile plat api this p w))) = executed (trace w)"
    by simp_all
qed

text \<open>
  Claim C10. \<open>readConfigFile\<close> reads at the recorded manual path whenever one is set and
  non-empty, without calling the locator. \<open>updateLocalProfile\<close> does not depend on the
  recorded paths at all. So when a manual path points to a readable, parsable file and no
  candidate of the locator exists for \<open>settings.json\<close>, the read returns the parsed
  value with the world unchanged, while \<open>updateLocalProfile\<close> fails with the locator's
  \<open>FileNotFound\<close> and has written no file and executed no command.
\<close>

theorem manual_override_read_but_not_written:
  "(\<forall>m. globalState this (manual_key t) = Some m \<and> m \<noteq> [] \<longrightarrow>
        readConfigFile plat this t w = read_and_parse plat t m w) \<and>
   updateLocalProfile plat api (this\<lparr>globalState := g\<rparr>) p w = updateLocalProfile plat api this p w \<and>
   (\<forall>m c v.
      globalState this (manual_key t) = Some m \<and> m \<noteq> [] \<and>
      files w m = Some (Regular c) \<and> json5_parse plat c = Some v \<and>
      (\<forall>q \<in> set (getConfigPaths plat (appName this) ''settings.json'' (activeProfileId this)).
          files w (fsPath plat q) = None) \<longrightarrow>
      readConfigFile plat this t w = (v, w) \<and>
      fst (updateLocalProfile plat api this p w) =
        Inl (FileNotFound ''settings.json does not exist in any of the configuration directories'') \<and>
      files (snd (updateLocalProfile plat api this p w)) = files w \<and>
      host (snd (updateLocalProfile plat api this p w)) = host w \<and>
      writes (trace (snd (updateLocalProfile plat api this p w))) = writes (trace w) \<and>
      executed (trace (snd (updateLocalProfile plat api this p w))) = executed (trace w))"
proof (intro conjI allI impI)
  fix m assume "globalState this (manual_key t) = Some m \<and> m \<noteq> []"
  then show "readConfigFile plat this t w = read_and_parse plat t m w"
    by (simp add: readConfigFile_manual)
next
  show "updateLocalProfile plat api (this\<lparr>globalState := g\<rparr>) p w = updateLocalProfile plat api this p w"
    by (rule updateLocalProfile_globalState)
next
  fix m c v
  assume a: "globalState this (manual_key t) = Some m \<and> m \<noteq> [] \<and>
      files w m = Some (Regular c) \<and> json5_parse plat c = Some v \<and>
      (\<forall>q \<in> set (getConfigPaths plat (appName this) ''settings.json'' (activeProfileId this)).
          files w (fsPath plat q) = None)"
  then have n: "\<forall>q \<in> set (getConfigPaths plat (appName this) ''settings.json'' (activeProfileId this)).
          files w (fsPath plat q) = None" by blast
  from a show "readConfigFile plat this t w = (v, w)"
    by (simp add: readConfigFile_manual read_and_parse_ok)
  from n show "fst (updateLocalProfile plat api this p w) =
        Inl (FileNotFound ''settings.json does not exist in any of the configuration directories'')"
    by (rule updateLocalProfile_not_found)
  from n show "files (snd (updateLocalProfile plat api this p w)) = files w"
    by (rule updateLocalProfile_not_found)
  from n show "host (snd (updateLocalProfile plat api this p w)) = host w"
    by (rule updateLocalProfile_not_found)
  from n show "writes (trace (snd (updateLocalProfile plat api this p w))) = writes (trace w)"
    by (rule updateLocalProfile_not_found)
  from n show "executed (trace (snd (updateLocalProfile plat api this p w))) = executed (trace w)"
    by (rule updateLocalProfile_not_found)
qed

lemma demo_instance_simps [simp]:
  "appName (demo_instance g) = ''Code''" "activeProfileId (demo_instance g) = JNull"
  "activeProfileName (demo_instance g) = JNull" "globalState (demo_instance g) = g"
  by (simp_all add: demo_instance_def)

theorem manual_override_read_but_not_written_witness:
  "globalState (demo_instance demo_manual) (manual_key Settings) = Some ''/m/settings.json'' \<and>
   readConfigFile demo_platform (demo_instance demo_manual) Settings
      (demo_files [(''/m/settings.json'', Regular ''{}''), (''/m/keybindings.json'', Regular ''[]'')]) =
     (JObj [], demo_files [(''/m/settings.json'', Regular ''{}''), (''/m/keybindings.json'', Regular ''[]'')]) \<and>
   fst (updateLocalProfile demo_platform demo_host (demo_instance demo_manual) demo_profile
      (demo_files [(''/m/settings.json'', Regular ''{}''), (''/m/keybindings.json'', Regular ''[]'')])) =
     Inl (FileNotFound ''settings.json does not exist in any of the configuration directories'') \<and>
   files (snd (updateLocalProfile demo_platform demo_host (demo_instance demo_manual) demo_profile
      (demo_files [(''/m/settings.json'', Regular ''{}''), (''/m/keybindings.json'', Regular ''[]'')]))) =
     map_of [(''/m/settings.json'', Regular ''{}''), (''/m/keybindings.json'', Regular ''[]'')] \<and>
   writes (trace (snd (updateLocalProfile demo_platform demo_host (demo_instance demo_manual) demo_profile
      (demo_files [(''/m/settings.json'', Regular ''{}''), (''/m/keybindings.json'', Regular ''[]'')])))) = []"
proof -
  let ?w = "demo_files [(''/m/settings.json'', Regular ''{}''), (''/m/keybindings.json'', Regular ''[]'')]"
  have g: "globalState (demo_instance demo_manual) (manual_key Settings) = Some ''/m/settings.json''"
    by (simp add: demo_manual_def)
  have f: "files ?w ''/m/settings.json'' = Some (Regular ''{}'')"
    by (simp add: demo_files_def)
  have p: "json5_parse demo_platform ''{}'' = Some (JObj [])"
    by (simp add: demo_parse_def)
  have n: "\<forall>q \<in> set (getConfigPaths demo_platform (appName (demo_instance demo_manual)) ''settings.json''
                  (activeProfileId (demo_instance demo_manual))).
             files ?w (fsPath demo_platform q) = None"
    by (simp add: getConfigPaths_def demo_default_paths demo_files_def)
  from manual_override_read_but_not_written [of "demo_instance demo_manual" Settings demo_platform ?w
      demo_host demo_no_manual demo_profile] g f p n
  have "readConfigFile demo_platform (demo_instance demo_manual) Settings ?w = (JObj [], ?w) \<and>
      fst (updateLocalProfile demo_platform demo_host (demo_instance demo_manual) demo_profile ?w) =
        Inl (FileNotFound ''settings.json does not exist in any of the configuration directories'') \<and>
      files (snd (updateLocalProfile demo_platform demo_host (demo_instance demo_manual) demo_profile ?w)) = files ?w \<and>
      writes (trace (snd (updateLocalProfile demo_platform demo_host (demo_instance demo_manual) demo_profile ?w))) = writes (trace ?w)"
    by blast
  with g show ?thesis by (simp add: demo_files_def)
qed

text \<open>
  Claim C2. \<open>readConfigFile\<close> answers a failed read or parse with \<open>undefined\<close>, and
  \<open>getActiveProfile\<close> puts that value into the snapshot it returns. With a settings file
  that does not parse and a keybindings file that does, the caller receives a snapshot
  whose \<open>settings\<close> field is \<open>undefined\<close>.
\<close>

theorem capture_returns_snapshot_without_settings:
  "fst (getActiveProfile demo_platform demo_host (demo_instance demo_no_manual)
         (demo_files [(''/h/.config/Code/User/settings.json'', Regular ''{''),
                      (''/h/.config/Code/User/keybindings.json'', Regular ''[]'')])) =
     \<lparr>settings = JUndefined, extensions = [], keybindings = JArr [], sourceAppName = ''Code'',
      sourceProfileId = JStr ''__default__profile__'', sourceProfileName = JStr ''Default''\<rparr>"
proof -
  let ?w = "demo_files [(''/h/.config/Code/User/settings.json'', Regular ''{''),
                      (''/h/.config/Code/User/keybindings.json'', Regular ''[]'')]"
  have d: "getActiveProfileInfo demo_platform ''Code'' ?w =
      (default_info, emit (Stat ''/h/.config/Code/User/globalStorage/storage.json'') ?w)"
    by (simp add: getActiveProfileInfo_def detect_body_absent demo_storage_path demo_files_def)
  have p: "demo_parse ''{'' = None" "demo_parse ''[]'' = Some (JArr [])"
    by (simp_all add: demo_parse_def)
  show ?thesis
    unfolding getActiveProfile_def demo_instance_simps d
    by (simp add: default_info_def default_profile_def readConfigFile_def demo_no_manual_def
          findConfigFile_def getConfigPaths_def demo_default_paths pathExists_def
          read_and_parse_def p emit_def demo_files_def template_def Let_def)
qed

end
